theory Spec2Isabelle
  imports Complex_Main "HOL-Library.AList"
begin

section \<open>JavaScript values\<close>

text \<open>
  The gateway handles JSON documents: request bodies, the model output of the verify
  endpoint, response envelopes. A value is one of the six JSON kinds; a property that is
  absent (JavaScript's undefined) is \<open>None\<close> of \<open>json option\<close>, which is
  different from the value null. Strings are lists of 8-bit characters, so the model
  speaks about ASCII text, where UTF-8 byte length and string length agree. Objects are
  association lists of their own properties.

  A read \<open>o[k]\<close> with a computed key on a plain object also finds the members that
  the object inherits from Object.prototype. \<open>JBuiltin k\<close> is the inherited member
  of name \<open>k\<close>: a built-in function, and for \<open>__proto__\<close> the prototype object
  itself. It is a value that \<open>JSON.parse\<close> never yields.
\<close>

datatype json =
    JNull
  | JBool bool
  | JNum rat
  | JStr string
  | JArr "json list"
  | JObj "(string \<times> json) list"
  | JBuiltin string

fun truthy :: "json option \<Rightarrow> bool" where
  "truthy None = False"
| "truthy (Some JNull) = False"
| "truthy (Some (JBool b)) = b"
| "truthy (Some (JNum n)) = (n \<noteq> 0)"
| "truthy (Some (JStr s)) = (s \<noteq> [])"
| "truthy (Some (JArr xs)) = True"
| "truthy (Some (JObj kvs)) = True"
| "truthy (Some (JBuiltin k)) = True"

fun typeof :: "json option \<Rightarrow> string" where
  "typeof None = ''undefined''"
| "typeof (Some JNull) = ''object''"
| "typeof (Some (JBool b)) = ''boolean''"
| "typeof (Some (JNum n)) = ''number''"
| "typeof (Some (JStr s)) = ''string''"
| "typeof (Some (JArr xs)) = ''object''"
| "typeof (Some (JObj kvs)) = ''object''"
| "typeof (Some (JBuiltin k)) = (if k = ''__proto__'' then ''object'' else ''function'')"

text \<open>
  Property read \<open>v.k\<close> with a fixed name \<open>k\<close> on a value that is neither null nor
  undefined. The names the gateway reads in this way (\<open>agent\<close>, \<open>intent\<close>,
  \<open>input\<close>, \<open>context\<close>, \<open>provider\<close>, \<open>claim\<close>, \<open>sources\<close>,
  \<open>confidence_threshold\<close>, \<open>verdict\<close>, \<open>confidence\<close>, \<open>reasoning\<close>,
  \<open>flags\<close>, \<open>hash\<close>, \<open>status\<close>, \<open>output\<close>) are not names of
  Object.prototype, nor of the prototypes of strings, numbers and arrays, so the read
  finds an own property or nothing.
\<close>

fun getprop :: "json \<Rightarrow> string \<Rightarrow> json option" where
  "getprop (JObj kvs) k = map_of kvs k"
| "getprop v k = None"

text \<open>
  The names that every plain object inherits from Object.prototype, and the read
  \<open>o[k]\<close> with a computed key: an own property wins, then the inherited member.
\<close>

definition object_prototype_names :: "string list" where
  "object_prototype_names =
     [''constructor'', ''__defineGetter__'', ''__defineSetter__'', ''hasOwnProperty'',
      ''__lookupGetter__'', ''__lookupSetter__'', ''isPrototypeOf'', ''propertyIsEnumerable'',
      ''toString'', ''valueOf'', ''__proto__'', ''toLocaleString'']"

definition inherited :: "string \<Rightarrow> json option" where
  "inherited k = (if k \<in> set object_prototype_names then Some (JBuiltin k) else None)"

definition object_get :: "(string \<times> json) list \<Rightarrow> string \<Rightarrow> json option" where
  "object_get kvs k = (case map_of kvs k of Some v \<Rightarrow> Some v | None \<Rightarrow> inherited k)"

text \<open>\<open>Array.prototype.join\<close> on strings.\<close>

fun join :: "string \<Rightarrow> string list \<Rightarrow> string" where
  "join sep [] = []"
| "join sep [x] = x"
| "join sep (x # y # ys) = x @ sep @ join sep (y # ys)"

text \<open>\<open>String.prototype.startsWith\<close> and \<open>String.prototype.includes\<close>.\<close>

fun startsWith :: "string \<Rightarrow> string \<Rightarrow> bool" where
  "startsWith s [] = True"
| "startsWith [] (p # ps) = False"
| "startsWith (c # s) (p # ps) = (c = p \<and> startsWith s ps)"

fun str_includes :: "string \<Rightarrow> string \<Rightarrow> bool" where
  "str_includes [] p = (p = [])"
| "str_includes (c # s) p = (startsWith (c # s) p \<or> str_includes s p)"

text \<open>\<open>String.prototype.toLowerCase\<close> on ASCII text.\<close>

definition lower_char :: "char \<Rightarrow> char" where
  "lower_char c =
     (case map_of (zip ''ABCDEFGHIJKLMNOPQRSTUVWXYZ'' ''abcdefghijklmnopqrstuvwxyz'') c of
        None \<Rightarrow> c
      | Some l \<Rightarrow> l)"

definition toLowerCase :: "string \<Rightarrow> string" where
  "toLowerCase s = map lower_char s"

section \<open>Rate limiter\<close>

text \<open>
  \<open>class RateLimiter\<close>: \<open>windows\<close> is a Map from agent to the array of the
  millisecond timestamps of its recorded calls. Every method that reads the clock takes
  the value of \<open>Date.now()\<close> as its first argument and returns the updated Map.
\<close>

type_synonym windows = "string \<rightharpoonup> int list"

fun shift_expired :: "int \<Rightarrow> int list \<Rightarrow> int list" where
  "shift_expired cutoff [] = []"
| "shift_expired cutoff (e # es) = (if e < cutoff then shift_expired cutoff es else e # es)"

definition RateLimiter_prune :: "int \<Rightarrow> int list \<Rightarrow> int \<Rightarrow> int list" where
  "RateLimiter_prune now entries windowMs = (let cutoff = now - windowMs in shift_expired cutoff entries)"

definition RateLimiter_check :: "int \<Rightarrow> windows \<Rightarrow> string \<Rightarrow> int \<Rightarrow> bool \<times> windows" where
  "RateLimiter_check now ws agent limitPerMinute =
     (if limitPerMinute = 0 \<or> limitPerMinute \<le> 0 then (True, ws)
      else
        let ws1 = (if ws agent = None then ws(agent \<mapsto> []) else ws);
            entries = RateLimiter_prune now (case ws1 agent of None \<Rightarrow> [] | Some es \<Rightarrow> es) 60000
        in (int (length entries) < limitPerMinute, ws1(agent \<mapsto> entries)))"

definition RateLimiter_record :: "int \<Rightarrow> windows \<Rightarrow> string \<Rightarrow> windows" where
  "RateLimiter_record now ws agent =
     (let ws1 = (if ws agent = None then ws(agent \<mapsto> []) else ws)
      in ws1(agent \<mapsto> (case ws1 agent of None \<Rightarrow> [] | Some es \<Rightarrow> es) @ [now]))"

definition RateLimiter_getUsage :: "int \<Rightarrow> windows \<Rightarrow> string \<Rightarrow> nat \<times> windows" where
  "RateLimiter_getUsage now ws agent =
     (case ws agent of
        None \<Rightarrow> (0, ws)
      | Some es \<Rightarrow>
          (let entries = RateLimiter_prune now es 60000
           in (length entries, ws(agent \<mapsto> entries))))"

text \<open>A run of \<open>record\<close> calls, each with the agent it names and the clock it reads.\<close>

fun record_calls :: "(string \<times> int) list \<Rightarrow> windows \<Rightarrow> windows" where
  "record_calls [] ws = ws"
| "record_calls ((agent, now) # calls) ws = record_calls calls (RateLimiter_record now ws agent)"


section \<open>Policy documents and provider selection\<close>

text \<open>
  The policy file is trusted configuration, so its documents are typed records; a field
  the file omits is \<open>None\<close>. \<open>agents\<close> keeps the order of the file, which
  the roster endpoint shows.
\<close>

record agent_policy =
  description :: "string option"
  allowed_intents :: "string list option"
  allowed_providers :: "string list option"
  default_provider :: "string option"
  intent_routes :: "(string \<times> string) list option"
  fallback_chain :: "string list option"
  max_input_bytes :: "nat option"
  rate_limit_per_minute :: "int option"

record global_policy =
  global_rate_limit_per_minute :: "int option"

record policy =
  global :: "global_policy option"
  agents :: "(string \<times> agent_policy) list option"

text \<open>
  \<open>pickProvider(requested, policy, intent)\<close>. \<open>requested\<close> is
  \<open>payload.provider\<close>, any JSON value or undefined; the result is a JavaScript value
  too, null being \<open>Some JNull\<close>. The read of \<open>intent_routes\<close> has the intent as
  a computed key, so for an intent that Object.prototype names and the routes do not, it
  finds the inherited member, which is truthy.
\<close>

definition intent_route :: "agent_policy \<Rightarrow> string \<Rightarrow> json option" where
  \<comment> \<open>\<open>policy.intent_routes && policy.intent_routes[intent]\<close>\<close>
  "intent_route policy intent =
     (case intent_routes policy of
        None \<Rightarrow> None
      | Some routes \<Rightarrow> object_get (map (\<lambda>(k, route). (k, JStr route)) routes) intent)"

definition pickProvider :: "json option \<Rightarrow> agent_policy \<Rightarrow> string \<Rightarrow> json option" where
  "pickProvider requested policy intent =
     (if truthy requested then requested
      else if truthy (intent_route policy intent) then intent_route policy intent
      else if truthy (map_option JStr (default_provider policy))
      then map_option JStr (default_provider policy)
      else Some JNull)"

text \<open>
  \<open>loadPolicy\<close> on the outcome of \<open>loadJson(policyPath)\<close>: \<open>Inl\<close> is a read
  or parse error, \<open>Inr None\<close> the null of a missing file.
\<close>

definition loadPolicy :: "string + policy option \<Rightarrow> string + policy" where
  "loadPolicy file =
     (case file of
        Inl e \<Rightarrow> Inl e
      | Inr None \<Rightarrow> Inl ''Policy file missing or invalid''
      | Inr (Some p) \<Rightarrow>
          (if agents p = None then Inl ''Policy file missing or invalid'' else Inr p))"

definition policy_agents :: "policy \<Rightarrow> (string \<times> agent_policy) list" where
  \<comment> \<open>\<open>policy.agents\<close> of a policy that \<open>loadPolicy\<close> returned\<close>
  "policy_agents policy = (case agents policy of None \<Rightarrow> [] | Some as \<Rightarrow> as)"

text \<open>
  \<open>policy.agents[agentName]\<close>: the policy of the agent, nothing, or, for a name of
  Object.prototype that the policy does not define, the inherited member, which is truthy
  and has none of the fields of an agent policy.
\<close>

datatype agent_lookup = Policy_of agent_policy | Inherited_member | No_agent

definition agents_get :: "policy \<Rightarrow> string \<Rightarrow> agent_lookup" where
  "agents_get policy agentName =
     (case map_of (policy_agents policy) agentName of
        Some agentPolicy \<Rightarrow> Policy_of agentPolicy
      | None \<Rightarrow> if agentName \<in> set object_prototype_names then Inherited_member else No_agent)"

section \<open>Provider registry and invocation with fallback\<close>

text \<open>
  An adapter's \<open>invoke\<close> either returns the generated text (\<open>Inr\<close>) or throws an
  error, kept as its message (\<open>Inl\<close>). The registry is what \<open>providers[name]\<close>
  gives for each lower-case name, together with what calling \<open>invoke\<close> on it does
  during this request: the adapters of providers/index.js, and for a name of
  Object.prototype the inherited member, whose \<open>invoke\<close> is not a function, so that
  the call throws a TypeError inside the \<open>try\<close> as a failing adapter does.
\<close>

type_synonym 'a provider = "'a \<Rightarrow> string + string"
type_synonym 'a registry = "string \<rightharpoonup> 'a provider"

definition getProvider :: "'a registry \<Rightarrow> json option \<Rightarrow> string + 'a provider option" where
  "getProvider providers name =
     (case name of
        Some (JStr s) \<Rightarrow> Inr (providers (toLowerCase s))
      | None \<Rightarrow> Inl ''Cannot read properties of undefined (reading 'toLowerCase')''
      | Some JNull \<Rightarrow> Inl ''Cannot read properties of null (reading 'toLowerCase')''
      | Some v \<Rightarrow> Inl ''name.toLowerCase is not a function'')"

record invoke_result =
  result_output :: string
  result_provider :: "json option"
  result_fallback :: bool

text \<open>The \<open>for (const name of fallbackChain)\<close> loop, with the array \<open>errors\<close>.\<close>

fun try_fallbacks ::
  "'a registry \<Rightarrow> json option \<Rightarrow> string list \<Rightarrow> 'a \<Rightarrow> string list \<Rightarrow> string + invoke_result"
where
  "try_fallbacks providers primaryProvider [] invokeArgs errors =
     Inl (''All providers failed: '' @ join ''; '' errors)"
| "try_fallbacks providers primaryProvider (name # rest) invokeArgs errors =
     (if Some (JStr name) = primaryProvider
      then try_fallbacks providers primaryProvider rest invokeArgs errors
      else
        (case getProvider providers (Some (JStr name)) of
           Inl e \<Rightarrow> Inl e
         | Inr None \<Rightarrow> try_fallbacks providers primaryProvider rest invokeArgs errors
         | Inr (Some fb) \<Rightarrow>
             (case fb invokeArgs of
                Inr out \<Rightarrow>
                  Inr \<lparr>result_output = out, result_provider = Some (JStr name), result_fallback = True\<rparr>
              | Inl msg \<Rightarrow>
                  try_fallbacks providers primaryProvider rest invokeArgs
                    (errors @ [name @ '': '' @ msg]))))"

definition chain_empty :: "string list option \<Rightarrow> bool" where
  "chain_empty fallbackChain = (case fallbackChain of None \<Rightarrow> True | Some chain \<Rightarrow> chain = [])"

text \<open>The second half of \<open>invokeWithFallback\<close>, reached when the primary did not settle the call.\<close>

definition try_chain ::
  "'a registry \<Rightarrow> json option \<Rightarrow> string list option \<Rightarrow> 'a \<Rightarrow> string + invoke_result"
where
  "try_chain providers primaryProvider fallbackChain invokeArgs =
     (case fallbackChain of
        None \<Rightarrow> Inl ''No provider available''
      | Some chain \<Rightarrow>
          (if chain \<noteq> []
           then try_fallbacks providers primaryProvider chain invokeArgs []
           else Inl ''No provider available''))"

definition invokeWithFallback ::
  "'a registry \<Rightarrow> json option \<Rightarrow> string list option \<Rightarrow> 'a \<Rightarrow> string + invoke_result"
where
  "invokeWithFallback providers primaryProvider fallbackChain invokeArgs =
     (case getProvider providers primaryProvider of
        Inl e \<Rightarrow> Inl e
      | Inr None \<Rightarrow> try_chain providers primaryProvider fallbackChain invokeArgs
      | Inr (Some primary) \<Rightarrow>
          (case primary invokeArgs of
             Inr out \<Rightarrow>
               Inr \<lparr>result_output = out, result_provider = primaryProvider, result_fallback = False\<rparr>
           | Inl err \<Rightarrow>
               if chain_empty fallbackChain then Inl err
               else try_chain providers primaryProvider fallbackChain invokeArgs))"

text \<open>
  What the fallback loop has pushed to \<open>errors\<close> when no fallback succeeds: one
  entry \<open>name: message\<close> for every name of the chain that is not the primary, that
  the registry resolves and whose \<open>invoke\<close> throws, in the order of the chain.
\<close>

definition fallback_errors :: "'a registry \<Rightarrow> json option \<Rightarrow> string list \<Rightarrow> 'a \<Rightarrow> string list" where
  "fallback_errors providers primaryProvider chain invokeArgs =
     List.map_filter
       (\<lambda>name.
          if Some (JStr name) = primaryProvider then None
          else (case providers (toLowerCase name) of
                  None \<Rightarrow> None
                | Some fb \<Rightarrow> (case fb invokeArgs of Inl msg \<Rightarrow> Some (name @ '': '' @ msg) | Inr out \<Rightarrow> None)))
       chain"

text \<open>Whether a fallback of the chain would return text: the loop stops at the first one.\<close>

definition fallback_succeeds :: "'a registry \<Rightarrow> json option \<Rightarrow> 'a \<Rightarrow> string \<Rightarrow> bool" where
  "fallback_succeeds providers primaryProvider invokeArgs name =
     (Some (JStr name) \<noteq> primaryProvider \<and>
      (case providers (toLowerCase name) of
         None \<Rightarrow> False
       | Some fb \<Rightarrow> (case fb invokeArgs of Inl msg \<Rightarrow> False | Inr out \<Rightarrow> True)))"

text \<open>A registry of two adapters that both fail.\<close>

definition failing_registry :: "unit registry" where
  "failing_registry =
     [''ollama'' \<mapsto> (\<lambda>u. Inl ''fetch failed''),
      ''openai'' \<mapsto> (\<lambda>u. Inl ''Missing BLACKROAD_OPENAI_API_KEY'')]"

text \<open>The policy of the \<open>pickProvider\<close> test suite.\<close>

definition suite_policy :: agent_policy where
  "suite_policy =
     \<lparr>description = None, allowed_intents = None, allowed_providers = None,
      default_provider = Some ''ollama'',
      intent_routes = Some [(''analyze'', ''ollama''), (''plan'', ''claude'')],
      fallback_chain = None, max_input_bytes = None, rate_limit_per_minute = None\<rparr>"


section \<open>Objects, strings and coercions used by the request handler\<close>

text \<open>
  An object literal: a property whose value is undefined is dropped, as
  \<open>JSON.stringify\<close> drops it when the object is written out.
\<close>

definition obj :: "(string \<times> json option) list \<Rightarrow> (string \<times> json) list" where
  "obj kvs = List.map_filter (\<lambda>(k, v). map_option (Pair k) v) kvs"

text \<open>Object spread \<open>{...base, ...extra}\<close>: later properties overwrite earlier ones.\<close>

definition spread :: "(string \<times> json) list \<Rightarrow> (string \<times> json) list \<Rightarrow> (string \<times> json) list" where
  "spread base extra = foldl (\<lambda>acc (k, v). AList.update k v acc) base extra"

text \<open>\<open>error.message || fallback\<close>: errors are their messages.\<close>

definition message_or :: "string \<Rightarrow> string \<Rightarrow> string" where
  "message_or message dflt = (if message \<noteq> [] then message else dflt)"

definition is_space :: "char \<Rightarrow> bool" where
  "is_space c = (c \<in> set [CHR 0x20, CHR 0x09, CHR 0x0A, CHR 0x0B, CHR 0x0C, CHR 0x0D])"

definition trim :: "string \<Rightarrow> string" where
  "trim s = rev (dropWhile is_space (rev (dropWhile is_space s)))"

section \<open>The world of one request\<close>

text \<open>
  Everything the handler reads from outside during one request: the merged
  configuration, the outcome of each file read, what each provider adapter does, the
  clock, and the built-ins of the language that the model does not compute
  (\<open>JSON.parse\<close>, \<open>JSON.stringify\<close>, the string coercion of numbers and objects,
  \<open>parseInt\<close>, URL parsing, SHA-256). Theorems quantify over all of it.

  Every operation the handler awaits is taken to settle: the body read, the file reads,
  the feed and each \<open>invoke\<close> end with a value or with an error. A request whose
  body never ends, or an adapter that never answers, is outside the model. Requests are
  handled one at a time; interleavings of concurrent handlers are not modelled.
\<close>

record invoke_args =
  arg_input :: string
  arg_system :: string
  arg_context :: json
  arg_requestId :: string
  arg_agent :: string
  arg_intent :: string

record prompts =
  prompts_default :: "string option"
  prompts_agents :: "(string \<times> string) list option"
  prompts_intents :: "(string \<times> string) list option"

record world =
  w_allowRemote :: bool
  w_maxBodyBytes :: nat
  w_policyFile :: "string + policy option"
  w_promptFile :: "string + prompts option"
  w_providers :: "(string \<times> invoke_args provider) list"
  w_worldsFeed :: "string + json"
  w_JSON_parse :: "string \<Rightarrow> json option"
  w_JSON_stringify :: "json \<Rightarrow> string"
  w_String :: "json \<Rightarrow> string"
  w_coerced_gt_zero :: "json \<Rightarrow> bool"
  w_parseInt :: "string \<Rightarrow> int option"
  w_url_pathname :: "string \<Rightarrow> string"
  w_url_limit :: "string \<Rightarrow> string option"
  w_sha256_16 :: "json option \<Rightarrow> json \<Rightarrow> string"
  w_randomUUID :: string
  w_verifyUUID :: string
  w_now_start :: int
  w_now :: int
  w_now_record :: int
  w_now_end :: int
  w_timestamp :: string
  w_uptime :: rat
  w_mkdir_ok :: bool
  w_journal_read_ok :: bool
  w_contextFile :: "(string \<times> json) list option"
  w_journal_append_ok :: bool
  w_log_append_ok :: bool

record request =
  req_method :: string
  req_url :: string
  req_remoteAddress :: "string option"
  req_body :: "string + string"

text \<open>
  \<open>req_body\<close> is \<open>Inr\<close> of the bytes the client sent, or \<open>Inl\<close> of the message
  of a stream error. \<open>readBody\<close> rejects as soon as the bytes received exceed
  \<open>maxBytes\<close>.
\<close>

definition readBody :: "request \<Rightarrow> nat \<Rightarrow> string + string" where
  "readBody req maxBytes =
     (case req_body req of
        Inl e \<Rightarrow> Inl e
      | Inr body \<Rightarrow> if length body > maxBytes then Inl ''Request body too large'' else Inr body)"

definition isLoopback :: "request \<Rightarrow> bool" where
  "isLoopback req =
     (let address = (case req_remoteAddress req of None \<Rightarrow> [] | Some a \<Rightarrow> a)
      in address = ''127.0.0.1'' \<or> address = ''::1'' \<or> startsWith address ''::ffff:127.'')"

definition listProviders :: "world \<Rightarrow> string list" where
  "listProviders w = map fst (w_providers w)"

definition validateRequest :: "json \<Rightarrow> string option" where
  "validateRequest payload =
     (if \<not> truthy (Some payload) \<or> typeof (Some payload) \<noteq> ''object''
      then Some ''Invalid JSON payload''
      else if \<not> truthy (getprop payload ''agent'') \<or> typeof (getprop payload ''agent'') \<noteq> ''string''
      then Some ''Missing agent''
      else if \<not> truthy (getprop payload ''intent'') \<or> typeof (getprop payload ''intent'') \<noteq> ''string''
      then Some ''Missing intent''
      else if typeof (getprop payload ''input'') \<noteq> ''string''
      then Some ''Missing input''
      else if truthy (getprop payload ''context'') \<and> typeof (getprop payload ''context'') \<noteq> ''object''
      then Some ''Context must be an object''
      else None)"

text \<open>The string held by a property that \<open>validateRequest\<close> has checked.\<close>

definition string_of :: "json option \<Rightarrow> string" where
  "string_of v = (case v of Some (JStr s) \<Rightarrow> s | _ \<Rightarrow> [])"

text \<open>
  \<open>buildSystemPrompt\<close>. \<open>context\<close> is a value that passed \<open>validateRequest\<close>:
  when it is truthy it is an object or an array, and \<open>Object.keys\<close> is empty exactly
  when it has no property or element. The reads \<open>prompts.agents[agent]\<close> and
  \<open>prompts.intents[intent]\<close> are guarded by \<open>typeof ... === 'string'\<close>, which
  no member inherited from Object.prototype passes, so only own entries count.
\<close>

definition has_keys :: "json option \<Rightarrow> bool" where
  "has_keys context =
     (case context of Some (JObj kvs) \<Rightarrow> kvs \<noteq> [] | Some (JArr xs) \<Rightarrow> xs \<noteq> [] | _ \<Rightarrow> False)"

definition buildSystemPrompt ::
  "world \<Rightarrow> prompts option \<Rightarrow> string \<Rightarrow> string \<Rightarrow> json option \<Rightarrow> string"
where
  "buildSystemPrompt w prompts agent intent context =
     (case prompts of
        None \<Rightarrow> []
      | Some ps \<Rightarrow>
          (let parts0 = (case prompts_default ps of
                           None \<Rightarrow> []
                         | Some d \<Rightarrow> if trim d \<noteq> [] then [trim d] else []);
               parts1 = (case prompts_agents ps of
                           None \<Rightarrow> parts0
                         | Some as \<Rightarrow>
                             (case map_of as agent of None \<Rightarrow> parts0 | Some a \<Rightarrow> parts0 @ [trim a]));
               parts2 = (case prompts_intents ps of
                           None \<Rightarrow> parts1
                         | Some is \<Rightarrow>
                             (case map_of is intent of None \<Rightarrow> parts1 | Some i \<Rightarrow> parts1 @ [trim i]));
               parts3 = (case context of
                           None \<Rightarrow> parts2
                         | Some c \<Rightarrow>
                             if truthy (Some c) \<and> has_keys (Some c)
                             then parts2 @ [''Context JSON:'' @ [CHR 0x0A] @ w_JSON_stringify w c]
                             else parts2)
           in join [CHR 0x0A, CHR 0x0A] parts3))"

section \<open>Metrics\<close>

text \<open>
  \<open>byAgent\<close> and \<open>byProvider\<close> are plain objects used as dictionaries. The
  statement \<open>counts[k] = (counts[k] || 0) + 1\<close> reads with a computed key, so for a
  key that Object.prototype names and the object does not, it reads the inherited
  member, and the sum is the text of that member followed by \<open>1\<close>. A property of
  these objects therefore holds a number or a text.
\<close>

datatype counter = Count nat | Text string

definition incremented :: "world \<Rightarrow> string \<Rightarrow> counter option \<Rightarrow> counter" where
  \<comment> \<open>\<open>(counts[k] || 0) + 1\<close>, from the own property of \<open>counts\<close> at \<open>k\<close>, if any\<close>
  "incremented w k own =
     (case own of
        Some (Count n) \<Rightarrow> Count (n + 1)
      | Some (Text s) \<Rightarrow> if s = [] then Count 1 else Text (s @ ''1'')
      | None \<Rightarrow>
          if k \<in> set object_prototype_names then Text (w_String w (JBuiltin k) @ ''1'')
          else Count 1)"

text \<open>
  The assignment: it creates or overwrites the own property, except that assigning a
  text to \<open>__proto__\<close> on an object without such an own property calls the inherited
  setter, which ignores a value that is not an object.
\<close>

definition count_up :: "world \<Rightarrow> string \<Rightarrow> (string \<times> counter) list \<Rightarrow> (string \<times> counter) list" where
  "count_up w k counts =
     (if k = ''__proto__'' \<and> map_of counts k = None then counts
      else AList.update k (incremented w k (map_of counts k)) counts)"

record metrics =
  totalRequests :: nat
  totalErrors :: nat
  totalOk :: nat
  byAgent :: "(string \<times> counter) list"
  byProvider :: "(string \<times> counter) list"
  startTime :: int

text \<open>
  A property key: \<open>byAgent[agent]\<close> with \<open>agent\<close> null reads and writes the key
  \<open>null\<close>.
\<close>

definition agent_key :: "string option \<Rightarrow> string" where
  "agent_key agent = (case agent of None \<Rightarrow> ''null'' | Some a \<Rightarrow> a)"

definition key_string :: "world \<Rightarrow> json \<Rightarrow> string" where
  "key_string w v = (case v of JStr s \<Rightarrow> s | _ \<Rightarrow> w_String w v)"


definition metrics_record :: "world \<Rightarrow> string option \<Rightarrow> json option \<Rightarrow> json \<Rightarrow> metrics \<Rightarrow> metrics" where
  "metrics_record w agent provider status m =
     (let m1 = m\<lparr>totalRequests := totalRequests m + 1\<rparr>;
          m2 = (if status = JStr ''ok'' then m1\<lparr>totalOk := totalOk m1 + 1\<rparr>
                else m1\<lparr>totalErrors := totalErrors m1 + 1\<rparr>);
          m3 = m2\<lparr>byAgent := count_up w (agent_key agent) (byAgent m2)\<rparr>
      in case provider of
           None \<Rightarrow> m3
         | Some p \<Rightarrow>
             if truthy (Some p) then m3\<lparr>byProvider := count_up w (key_string w p) (byProvider m3)\<rparr>
             else m3)"

definition counter_json :: "counter \<Rightarrow> json" where
  "counter_json c = (case c of Count n \<Rightarrow> JNum (of_nat n) | Text s \<Rightarrow> JStr s)"

definition counts_json :: "(string \<times> counter) list \<Rightarrow> json" where
  \<comment> \<open>\<open>{ ...counts }\<close>\<close>
  "counts_json counts = JObj (map (\<lambda>(k, c). (k, counter_json c)) counts)"

definition metrics_snapshot :: "int \<Rightarrow> metrics \<Rightarrow> (string \<times> json) list" where
  "metrics_snapshot now m =
     [(''uptime_seconds'', JNum (of_int ((now - startTime m) div 1000))),
      (''total_requests'', JNum (of_nat (totalRequests m))),
      (''total_ok'', JNum (of_nat (totalOk m))),
      (''total_errors'', JNum (of_nat (totalErrors m))),
      (''by_agent'', counts_json (byAgent m)),
      (''by_provider'', counts_json (byProvider m))]"

section \<open>Memory journal\<close>

text \<open>
  \<open>class GatewayMemory\<close>. \<open>journal\<close> is the journal file, one record per line;
  the model takes its lines to be the JSON records this module wrote. The methods are
  asynchronous and the handler does not wait for \<open>record\<close>; the model runs each call
  to its end where it is made.
\<close>

definition bump :: "string \<Rightarrow> (string \<times> nat) list \<Rightarrow> (string \<times> nat) list" where
  \<comment> \<open>\<open>counts.set(k, (counts.get(k) || 0) + 1)\<close> on a Map, which has own keys only\<close>
  "bump k counts = AList.update k ((case map_of counts k of None \<Rightarrow> 0 | Some n \<Rightarrow> n) + 1) counts"

definition session_json :: "(string \<times> nat) list \<Rightarrow> json" where
  \<comment> \<open>\<open>Object.fromEntries(this.sessionCounts)\<close>\<close>
  "session_json counts = JObj (map (\<lambda>(k, n). (k, JNum (of_nat n))) counts)"

record memory_state =
  lastHash :: "json option"
  mem_context :: "(string \<times> json) list"
  sessionCounts :: "(string \<times> nat) list"
  initialized :: bool
  journal :: "json list"

definition memory_init :: "world \<Rightarrow> memory_state \<Rightarrow> memory_state" where
  "memory_init w ms =
     (if initialized ms then ms
      else if \<not> w_mkdir_ok w then ms
      else
        let ms1 = (if w_journal_read_ok w \<and> journal ms \<noteq> []
                   then (case last (journal ms) of
                           JNull \<Rightarrow> ms
                         | l \<Rightarrow> ms\<lparr>lastHash := getprop l ''hash''\<rparr>)
                   else ms);
            ms2 = (case w_contextFile w of None \<Rightarrow> ms1 | Some ctx \<Rightarrow> ms1\<lparr>mem_context := ctx\<rparr>)
        in ms2\<lparr>initialized := True\<rparr>)"

definition memory_record :: "world \<Rightarrow> (string \<times> json) list \<Rightarrow> memory_state \<Rightarrow> string \<times> memory_state" where
  "memory_record w entry ms =
     (let ms1 = memory_init w ms;
          record0 = spread (obj [(''ts'', Some (JStr (w_timestamp w))), (''prev'', lastHash ms1)]) entry;
          h = w_sha256_16 w (lastHash ms1) (JObj record0);
          record1 = AList.update ''hash'' (JStr h) record0;
          ms2 = ms1\<lparr>lastHash := Some (JStr h)\<rparr>;
          ms3 = (case map_of entry ''agent'' of
                   None \<Rightarrow> ms2
                 | Some a \<Rightarrow>
                     if truthy (Some a)
                     then ms2\<lparr>sessionCounts := bump (key_string w a) (sessionCounts ms2)\<rparr>
                     else ms2);
          ms4 = (if w_journal_append_ok w then ms3\<lparr>journal := journal ms3 @ [JObj record1]\<rparr> else ms3)
      in (h, ms4))"

definition memory_stats :: "world \<Rightarrow> memory_state \<Rightarrow> (string \<times> json) list \<times> memory_state" where
  "memory_stats w ms =
     (let ms1 = memory_init w ms;
          lineCount = (if w_journal_read_ok w then length (journal ms1) else 0)
      in (obj [(''journal_entries'', Some (JNum (of_nat lineCount))),
               (''last_hash'', lastHash ms1),
               (''context_keys'', Some (JNum (of_nat (length (mem_context ms1))))),
               (''session_calls'', Some (session_json (sessionCounts ms1))),
               (''total_session_calls'', Some (JNum (of_nat (sum_list (map snd (sessionCounts ms1))))))],
          ms1))"

text \<open>
  \<open>lines.slice(-limit)\<close>: \<open>limit\<close> is the result of \<open>parseInt\<close>, \<open>None\<close>
  being NaN. A NaN or zero start keeps every line, a negative start counts from the end,
  a positive start drops that many lines.
\<close>

definition slice_from_neg :: "int option \<Rightarrow> 'a list \<Rightarrow> 'a list" where
  "slice_from_neg limit xs =
     (case limit of
        None \<Rightarrow> xs
      | Some n \<Rightarrow> if 0 < n then drop (length xs - nat n) xs else drop (nat (- n)) xs)"

definition memory_recent :: "world \<Rightarrow> int option \<Rightarrow> memory_state \<Rightarrow> json list \<times> memory_state" where
  "memory_recent w limit ms =
     (let ms1 = memory_init w ms
      in (if w_journal_read_ok w then rev (slice_from_neg limit (journal ms1)) else [], ms1))"

section \<open>Verify: reading the model output\<close>

text \<open>
  \<open>result.output.match(/\{[\s\S]*\}/)\<close>: the match starts at the first opening brace
  and, the star being greedy, ends at the last closing brace after it.
\<close>

definition jsonMatch :: "string \<Rightarrow> string option" where
  "jsonMatch s =
     (let from_open = dropWhile (\<lambda>c. c \<noteq> CHR ''{'') s;
          matched = rev (dropWhile (\<lambda>c. c \<noteq> CHR ''}'') (rev from_open))
      in if matched = [] then None else Some matched)"

record verdict_result =
  v_verdict :: string
  v_confidence :: rat
  v_reasoning :: string
  v_flags :: "json list"

definition verdict_defaults :: "string \<Rightarrow> verdict_result" where
  "verdict_defaults out =
     \<lparr>v_verdict = ''unverified'', v_confidence = 1 / 2, v_reasoning = out, v_flags = []\<rparr>"

text \<open>
  The \<open>try\<close> block after the dispatch. \<open>JSON.parse\<close> throwing, and the read of
  \<open>parsed.verdict\<close> throwing on a parsed null, both leave the four defaults.
\<close>

definition parse_model_output :: "world \<Rightarrow> string \<Rightarrow> verdict_result" where
  "parse_model_output w out =
     (case jsonMatch out of
        None \<Rightarrow> verdict_defaults out
      | Some m \<Rightarrow>
          (case w_JSON_parse w m of
             None \<Rightarrow> verdict_defaults out
           | Some JNull \<Rightarrow> verdict_defaults out
           | Some parsed \<Rightarrow>
               \<lparr>v_verdict =
                  (case getprop parsed ''verdict'' of
                     Some (JStr v) \<Rightarrow>
                       if v \<in> set [''true'', ''false'', ''unverified'', ''conflicting''] then v
                       else ''unverified''
                   | _ \<Rightarrow> ''unverified''),
                v_confidence =
                  (case getprop parsed ''confidence'' of
                     Some (JNum c) \<Rightarrow> min 1 (max 0 c)
                   | _ \<Rightarrow> 1 / 2),
                v_reasoning =
                  (case getprop parsed ''reasoning'' of Some (JStr r) \<Rightarrow> r | _ \<Rightarrow> out),
                v_flags =
                  (case getprop parsed ''flags'' of Some (JArr fs) \<Rightarrow> fs | _ \<Rightarrow> [])\<rparr>))"

text \<open>
  The extraction as the specification words it, for comparison: the first balanced
  \<open>{...}\<close> substring, found by a scan that counts the nesting depth from the first
  opening brace and stops where the depth returns to zero.
\<close>

fun balanced_end :: "nat \<Rightarrow> string \<Rightarrow> string option" where
  "balanced_end d [] = None"
| "balanced_end d (c # cs) =
     (if c = CHR ''{'' then map_option ((#) c) (balanced_end (Suc d) cs)
      else if c = CHR ''}'' then
        (if d \<le> 1 then Some [c] else map_option ((#) c) (balanced_end (d - 1) cs))
      else map_option ((#) c) (balanced_end d cs))"

definition first_balanced_spec :: "string \<Rightarrow> string option" where
  "first_balanced_spec s = balanced_end 0 (dropWhile (\<lambda>c. c \<noteq> CHR ''{'') s)"

section \<open>The request handler\<close>

text \<open>
  The variables of one run of the handler that \<open>send\<close>, the \<open>catch\<close> block and
  the \<open>finally\<close> block read. \<open>l_sent\<close> is the sequence of responses written with
  \<open>res.writeHead\<close> and \<open>res.end\<close>.
\<close>

record locals =
  l_agentName :: "string option"
  l_intent :: "string option"
  l_providerName :: "json option"
  l_status :: json
  l_responsePayload :: "json option"
  l_requestPayload :: "json option"
  l_sent :: "(nat \<times> json) list"

record gateway =
  g_windows :: windows
  g_metrics :: metrics
  g_memory :: memory_state
  g_accessLog :: "json list"

definition send :: "nat \<Rightarrow> (string \<times> json) list \<Rightarrow> locals \<Rightarrow> locals" where
  "send code payload0 loc =
     (let payload = (if map_of payload0 ''status'' = Some (JStr ''error'')
                        \<and> typeof (map_of payload0 ''output'') \<noteq> ''string''
                     then AList.update ''output'' (JStr '''') payload0
                     else payload0)
      in loc\<lparr>l_responsePayload := Some (JObj payload),
              l_status := (case map_of payload ''status'' of
                             None \<Rightarrow> l_status loc
                           | Some s \<Rightarrow> if truthy (Some s) then s else l_status loc),
              l_sent := l_sent loc @ [(code, JObj payload)]\<rparr>)"

text \<open>
  A run of the \<open>try\<close> block ends by returning or by throwing; either way the
  variables and the gateway state are those reached at that point.
\<close>

type_synonym run = "string option \<times> locals \<times> gateway"

definition returns :: "locals \<Rightarrow> gateway \<Rightarrow> run" where
  "returns loc st = (None, loc, st)"

definition throws :: "string \<Rightarrow> locals \<Rightarrow> gateway \<Rightarrow> run" where
  "throws e loc st = (Some e, loc, st)"

definition remote_denied :: "world \<Rightarrow> request \<Rightarrow> bool" where
  \<comment> \<open>\<open>!config.allowRemote && !isLoopback(req)\<close>\<close>
  "remote_denied w req = (\<not> w_allowRemote w \<and> \<not> isLoopback req)"

definition health_route :: "world \<Rightarrow> locals \<Rightarrow> gateway \<Rightarrow> run" where
  "health_route w loc st =
     returns
       (send 200
          [(''status'', JStr ''ok''), (''gateway'', JStr ''blackroad-core''), (''version'', JNum 2),
           (''providers'', JArr (map JStr (listProviders w))),
           (''agents'', JNum 0),
           (''uptime'', JNum (w_uptime w)),
           (''timestamp'', JStr (w_timestamp w))] loc)
       st"

definition metrics_route :: "world \<Rightarrow> request \<Rightarrow> locals \<Rightarrow> gateway \<Rightarrow> run" where
  "metrics_route w req loc st =
     (if remote_denied w req
      then returns (send 403 [(''status'', JStr ''error''), (''error'', JStr ''Remote access denied'')] loc) st
      else returns
             (send 200 [(''status'', JStr ''ok''),
                        (''metrics'', JObj (metrics_snapshot (w_now w) (g_metrics st)))] loc)
             st)"

fun roster :: "int \<Rightarrow> (string \<times> agent_policy) list \<Rightarrow> windows \<Rightarrow> json list \<times> windows" where
  "roster now [] ws = ([], ws)"
| "roster now ((name, cfg) # rest) ws =
     (let (usage, ws1) = RateLimiter_getUsage now ws name;
          (entries, ws2) = roster now rest ws1
      in (JObj [(''name'', JStr name),
                (''description'', JStr (case description cfg of None \<Rightarrow> [] | Some d \<Rightarrow> d)),
                (''intents'', JArr (map JStr (case allowed_intents cfg of None \<Rightarrow> [] | Some is \<Rightarrow> is))),
                (''providers'', JArr (map JStr (case allowed_providers cfg of None \<Rightarrow> [] | Some ps \<Rightarrow> ps))),
                (''default_provider'',
                   (case default_provider cfg of
                      None \<Rightarrow> JNull
                    | Some d \<Rightarrow> if d \<noteq> [] then JStr d else JNull)),
                (''rate_limit'',
                   (case rate_limit_per_minute cfg of
                      None \<Rightarrow> JNull
                    | Some n \<Rightarrow> if n \<noteq> 0 then JNum (of_int n) else JNull)),
                (''usage_last_minute'', JNum (of_nat usage))] # entries,
          ws2))"

definition agents_route :: "world \<Rightarrow> request \<Rightarrow> locals \<Rightarrow> gateway \<Rightarrow> run" where
  "agents_route w req loc st =
     (if remote_denied w req
      then returns (send 403 [(''status'', JStr ''error''), (''error'', JStr ''Remote access denied'')] loc) st
      else
        (case loadPolicy (w_policyFile w) of
           Inl e \<Rightarrow> throws e loc st
         | Inr policy \<Rightarrow>
             (let (entries, ws) = roster (w_now w) (policy_agents policy) (g_windows st)
              in returns (send 200 [(''status'', JStr ''ok''), (''agents'', JArr entries)] loc)
                         (st\<lparr>g_windows := ws\<rparr>))))"

definition worlds_route :: "world \<Rightarrow> locals \<Rightarrow> gateway \<Rightarrow> run" where
  "worlds_route w loc st =
     (case w_worldsFeed w of
        Inr data \<Rightarrow> returns (send 200 [(''status'', JStr ''ok''), (''worlds'', data)] loc) st
      | Inl e \<Rightarrow>
          returns (send 502 [(''status'', JStr ''error''), (''error'', JStr ''worlds feed unavailable'')] loc) st)"

definition memory_route :: "world \<Rightarrow> request \<Rightarrow> locals \<Rightarrow> gateway \<Rightarrow> run" where
  "memory_route w req loc st =
     (if remote_denied w req
      then returns (send 403 [(''status'', JStr ''error''), (''error'', JStr ''Remote access denied'')] loc) st
      else if w_url_pathname w (req_url req) = ''/v1/memory/recent''
      then
        (let limit = w_parseInt w (case w_url_limit w (req_url req) of
                                     None \<Rightarrow> ''10''
                                   | Some l \<Rightarrow> if l \<noteq> [] then l else ''10'');
             (entries, ms) = memory_recent w limit (g_memory st)
         in returns (send 200 [(''status'', JStr ''ok''), (''entries'', JArr entries)] loc)
                    (st\<lparr>g_memory := ms\<rparr>))
      else
        (let (stats, ms) = memory_stats w (g_memory st)
         in returns (send 200 [(''status'', JStr ''ok''), (''memory'', JObj stats)] loc)
                    (st\<lparr>g_memory := ms\<rparr>)))"

definition providers_route :: "world \<Rightarrow> request \<Rightarrow> locals \<Rightarrow> gateway \<Rightarrow> run" where
  "providers_route w req loc st =
     (if remote_denied w req
      then returns (send 403 [(''status'', JStr ''error''), (''error'', JStr ''Remote access denied'')] loc) st
      else returns
             (send 200 [(''status'', JStr ''ok''),
                        (''providers'', JArr (map JStr (listProviders w)))] loc)
             st)"

subsection \<open>POST /v1/verify\<close>

definition nl :: string where
  "nl = [CHR 0x0A]"

definition quoted :: "string \<Rightarrow> string" where
  "quoted s = [CHR 0x22] @ s @ [CHR 0x22]"

definition escape_quotes :: "string \<Rightarrow> string" where
  \<comment> \<open>\<open>claim.replace(/"/g, '\\"')\<close>\<close>
  "escape_quotes s = concat (map (\<lambda>c. if c = CHR 0x22 then [CHR 0x5C, CHR 0x22] else [c]) s)"

text \<open>\<open>v.length\<close>: reading a property of null throws.\<close>

definition js_length :: "json \<Rightarrow> string + json option" where
  "js_length v =
     (case v of
        JNull \<Rightarrow> Inl ''Cannot read properties of null (reading 'length')''
      | JArr xs \<Rightarrow> Inr (Some (JNum (of_nat (length xs))))
      | JStr s \<Rightarrow> Inr (Some (JNum (of_nat (length s))))
      | JObj kvs \<Rightarrow> Inr (map_of kvs ''length'')
      | _ \<Rightarrow> Inr None)"

text \<open>\<open>v > 0\<close>: numbers compare, undefined is NaN, null is 0, other kinds are coerced.\<close>

definition gt_zero :: "world \<Rightarrow> json option \<Rightarrow> bool" where
  "gt_zero w v =
     (case v of
        None \<Rightarrow> False
      | Some JNull \<Rightarrow> False
      | Some (JNum n) \<Rightarrow> 0 < n
      | Some (JBool b) \<Rightarrow> b
      | Some other \<Rightarrow> w_coerced_gt_zero w other)"

definition array_join :: "world \<Rightarrow> string \<Rightarrow> json list \<Rightarrow> string" where
  "array_join w sep xs =
     join sep (map (\<lambda>x. case x of JNull \<Rightarrow> [] | JStr s \<Rightarrow> s | _ \<Rightarrow> w_String w x) xs)"

definition sourcesLine :: "world \<Rightarrow> json \<Rightarrow> string + string" where
  "sourcesLine w sources =
     (case js_length sources of
        Inl e \<Rightarrow> Inl e
      | Inr len \<Rightarrow>
          if gt_zero w len
          then (case sources of
                  JArr xs \<Rightarrow> Inr (nl @ ''Sources to cross-check: '' @ array_join w '', '' xs)
                | _ \<Rightarrow> Inl ''sources.join is not a function'')
          else Inr [])"

definition verifyPrompt :: "string \<Rightarrow> string \<Rightarrow> string \<Rightarrow> string" where
  "verifyPrompt claim sources_line threshold =
     ''You are an information verification system. Analyze the following claim and respond ONLY with a single valid JSON object ''
     @ [CHR 0xE2, CHR 0x80, CHR 0x94] @ '' no markdown fences, no surrounding text.'' @ nl @ nl
     @ ''Claim: '' @ quoted (escape_quotes claim) @ sources_line @ nl
     @ ''Confidence threshold: '' @ threshold @ nl @ nl
     @ ''Check for: numeric facts or statistics that may be hallucinated, dates and time references, proper nouns (people, places, organizations), logical consistency, and internal contradictions.''
     @ nl @ nl
     @ ''Respond with ONLY this JSON shape:'' @ nl
     @ ''{'' @ quoted ''verdict'' @ '':'' @ quoted ''true'' @ ''|'' @ quoted ''false'' @ ''|''
     @ quoted ''unverified'' @ ''|'' @ quoted ''conflicting'' @ '','' @ quoted ''confidence''
     @ '':<0.0-1.0>,'' @ quoted ''reasoning'' @ '':'' @ quoted ''<concise explanation>'' @ '',''
     @ quoted ''flags'' @ '':['' @ quoted ''<issue1>'' @ '']}''"

definition isSecurityClaim :: "string \<Rightarrow> bool" where
  \<comment> \<open>\<open>/password|secret|key|token|vulnerability|exploit|breach|hack/i.test(claim)\<close>\<close>
  "isSecurityClaim claim =
     (\<exists>word \<in> set [''password'', ''secret'', ''key'', ''token'', ''vulnerability'', ''exploit'',
                     ''breach'', ''hack'']. str_includes (toLowerCase claim) word)"

definition chain_or_empty :: "agent_policy \<Rightarrow> string list option" where
  \<comment> \<open>\<open>agentPolicy.fallback_chain || []\<close>\<close>
  "chain_or_empty agentPolicy =
     Some (case fallback_chain agentPolicy of None \<Rightarrow> [] | Some chain \<Rightarrow> chain)"

definition template_string :: "world \<Rightarrow> json \<Rightarrow> string" where
  \<comment> \<open>a value inside a template literal\<close>
  "template_string w v = (case v of JStr s \<Rightarrow> s | _ \<Rightarrow> w_String w v)"

definition sources_checked :: "json \<Rightarrow> json option" where
  \<comment> \<open>\<open>sources.length\<close>, read after \<open>sourcesLine\<close> has read it without throwing\<close>
  "sources_checked sources = (case js_length sources of Inl e \<Rightarrow> None | Inr len \<Rightarrow> len)"

text \<open>
  The inner \<open>try\<close> block of the verify endpoint, in three parts: \<open>Inl\<close> is an error
  thrown in it, which its \<open>catch\<close> turns into a 502. Nothing has been sent or written
  when it throws. The constants \<open>agentName\<close>, \<open>intent\<close> and \<open>providerName\<close>
  declared here shadow the handler's variables, which keep their initial null. The
  agent is \<open>cipher\<close> or \<open>prism\<close>, names that Object.prototype does not
  define, so \<open>policy.agents[agentName]\<close> finds an own entry or nothing.
\<close>

definition verify_respond ::
  "world \<Rightarrow> string \<Rightarrow> string \<Rightarrow> json \<Rightarrow> invoke_result \<Rightarrow> locals \<Rightarrow> gateway \<Rightarrow> run"
where
  "verify_respond w agentName intent sources result loc st =
     (let v = parse_model_output w (result_output result);
          (h, ms) = memory_record w
                      (obj [(''type'', Some (JStr ''verify'')),
                            (''agent'', Some (JStr agentName)),
                            (''provider'', result_provider result),
                            (''intent'', Some (JStr intent)),
                            (''verdict'', Some (JStr (v_verdict v))),
                            (''confidence'', Some (JNum (v_confidence v))),
                            (''sources_checked'', sources_checked sources),
                            (''duration_ms'', Some (JNum (of_int (w_now_end w - w_now w))))])
                      (g_memory st)
      in returns
           (send 200
              (obj [(''status'', Some (JStr ''ok'')),
                    (''verdict'', Some (JStr (v_verdict v))),
                    (''confidence'', Some (JNum (v_confidence v))),
                    (''reasoning'', Some (JStr (v_reasoning v))),
                    (''agent_used'', Some (JStr agentName)),
                    (''sources_checked'', sources_checked sources),
                    (''flags'', Some (JArr (v_flags v))),
                    (''timestamp'', Some (JStr (w_timestamp w)))]) loc)
           (st\<lparr>g_memory := ms\<rparr>))"

definition verify_claim ::
  "world \<Rightarrow> string \<Rightarrow> json \<Rightarrow> json \<Rightarrow> locals \<Rightarrow> gateway \<Rightarrow> string + run"
where
  "verify_claim w claim sources confidence_threshold loc st =
     (let agentName = (if isSecurityClaim claim then ''cipher'' else ''prism'');
          intent = (if isSecurityClaim claim then ''audit'' else ''analyze'')
      in
      case loadPolicy (w_policyFile w) of
        Inl e \<Rightarrow> Inl e
      | Inr policy \<Rightarrow>
     (case map_of (policy_agents policy) agentName of
        None \<Rightarrow> Inl ''Cannot read properties of undefined (reading 'intent_routes')''
      | Some agentPolicy \<Rightarrow>
          let providerName = pickProvider (Some JNull) agentPolicy intent in
          if \<not> truthy providerName
          then Inr (returns (send 503 [(''status'', JStr ''error''),
                                       (''error'', JStr ''No provider available for verification'')] loc) st)
          else
     (case sourcesLine w sources of
        Inl e \<Rightarrow> Inl e
      | Inr sources_line \<Rightarrow>
     (case w_promptFile w of
        Inl e \<Rightarrow> Inl e
      | Inr prompts \<Rightarrow>
     (case invokeWithFallback (map_of (w_providers w)) providerName (chain_or_empty agentPolicy)
             \<lparr>arg_input = verifyPrompt claim sources_line (template_string w confidence_threshold),
              arg_system = buildSystemPrompt w prompts agentName intent (Some (JObj [])),
              arg_context = JObj [(''task'', JStr ''verification'')],
              arg_requestId = ''verify-'' @ w_verifyUUID w,
              arg_agent = agentName,
              arg_intent = intent\<rparr>
      of
        Inl e \<Rightarrow> Inl e
      | Inr result \<Rightarrow> Inr (verify_respond w agentName intent sources result loc st))))))"

definition default_to :: "json \<Rightarrow> json option \<Rightarrow> json" where
  \<comment> \<open>the default of a destructuring pattern: it applies to undefined only\<close>
  "default_to d v = (case v of None \<Rightarrow> d | Some x \<Rightarrow> x)"

definition verify_try :: "world \<Rightarrow> request \<Rightarrow> locals \<Rightarrow> gateway \<Rightarrow> string + run" where
  "verify_try w req loc st =
     (case readBody req 65536 of
        Inl e \<Rightarrow> Inl e
      | Inr verBody \<Rightarrow>
     (case w_JSON_parse w verBody of
        None \<Rightarrow> Inr (returns (send 400 [(''status'', JStr ''error''), (''error'', JStr ''Invalid JSON'')] loc) st)
      | Some verPayload \<Rightarrow>
     (if verPayload = JNull
      then Inl ''Cannot destructure property 'claim' of 'verPayload' as it is null.''
      else
        let claim = getprop verPayload ''claim'';
            sources = default_to (JArr []) (getprop verPayload ''sources'');
            confidence_threshold = default_to (JNum (7 / 10)) (getprop verPayload ''confidence_threshold'')
        in
        if \<not> truthy claim \<or> typeof claim \<noteq> ''string'' \<or> length (trim (string_of claim)) = 0
        then Inr (returns (send 400 [(''status'', JStr ''error''), (''error'', JStr ''claim is required'')] loc) st)
        else verify_claim w (string_of claim) sources confidence_threshold loc st)))"

definition verify_route :: "world \<Rightarrow> request \<Rightarrow> locals \<Rightarrow> gateway \<Rightarrow> run" where
  "verify_route w req loc st =
     (case verify_try w req loc st of
        Inr finished \<Rightarrow> finished
      | Inl e \<Rightarrow>
          returns (send 502 [(''status'', JStr ''error''), (''error'', JStr (message_or e ''verify failed''))] loc) st)"

subsection \<open>POST /v1/agent\<close>

definition error_reply :: "world \<Rightarrow> string \<Rightarrow> (string \<times> json) list" where
  \<comment> \<open>\<open>{ status: 'error', error: message, request_id: requestId }\<close>\<close>
  "error_reply w message =
     [(''status'', JStr ''error''), (''error'', JStr message), (''request_id'', JStr (w_randomUUID w))]"

definition agentLimit :: "policy \<Rightarrow> agent_policy \<Rightarrow> int" where
  \<comment> \<open>\<open>agentPolicy.rate_limit_per_minute || (policy.global && policy.global.rate_limit_per_minute) || 0\<close>\<close>
  "agentLimit policy agentPolicy =
     (case rate_limit_per_minute agentPolicy of
        Some n \<Rightarrow>
          if n \<noteq> 0 then n
          else (case global policy of
                  None \<Rightarrow> 0
                | Some g \<Rightarrow> (case global_rate_limit_per_minute g of None \<Rightarrow> 0 | Some m \<Rightarrow> m))
      | None \<Rightarrow>
          (case global policy of
             None \<Rightarrow> 0
           | Some g \<Rightarrow> (case global_rate_limit_per_minute g of None \<Rightarrow> 0 | Some m \<Rightarrow> m)))"

definition intent_denied :: "agent_policy \<Rightarrow> string \<Rightarrow> bool" where
  \<comment> \<open>\<open>!agentPolicy.allowed_intents || !agentPolicy.allowed_intents.includes(intent)\<close>\<close>
  "intent_denied agentPolicy intent =
     (case allowed_intents agentPolicy of None \<Rightarrow> True | Some is \<Rightarrow> intent \<notin> set is)"

definition input_too_large :: "agent_policy \<Rightarrow> string \<Rightarrow> bool" where
  \<comment> \<open>\<open>agentPolicy.max_input_bytes && Buffer.byteLength(input, 'utf8') > agentPolicy.max_input_bytes\<close>\<close>
  "input_too_large agentPolicy input =
     (case max_input_bytes agentPolicy of None \<Rightarrow> False | Some m \<Rightarrow> m \<noteq> 0 \<and> length input > m)"

definition provider_denied :: "agent_policy \<Rightarrow> json option \<Rightarrow> bool" where
  \<comment> \<open>\<open>agentPolicy.allowed_providers && !agentPolicy.allowed_providers.includes(providerName)\<close>\<close>
  "provider_denied agentPolicy providerName =
     (case allowed_providers agentPolicy of
        None \<Rightarrow> False
      | Some ps \<Rightarrow> providerName \<notin> Some ` JStr ` set ps)"

definition object_or_empty :: "json option \<Rightarrow> json" where
  \<comment> \<open>\<open>v || {}\<close>\<close>
  "object_or_empty v = (case v of None \<Rightarrow> JObj [] | Some c \<Rightarrow> if truthy (Some c) then c else JObj [])"

definition rate_check :: "world \<Rightarrow> int \<Rightarrow> string \<Rightarrow> windows \<Rightarrow> bool \<times> windows" where
  \<comment> \<open>\<open>agentLimit > 0 && !rateLimiter.check(agentName, agentLimit)\<close>: the flag is whether to reject\<close>
  "rate_check w limit agentName ws =
     (if 0 < limit
      then (let (allowed, ws1) = RateLimiter_check (w_now w) ws agentName limit in (\<not> allowed, ws1))
      else (False, ws))"

text \<open>
  The agent endpoint after \<open>validateRequest\<close> has accepted the payload and the handler
  has stored \<open>requestPayload\<close>, \<open>agentName\<close> and \<open>intent\<close>: first the policy
  checks and the rate check, then provider selection and the dispatch. An agent name
  that finds an inherited member passes \<open>!agentPolicy\<close> and fails at
  \<open>!agentPolicy.allowed_intents\<close>.
\<close>

definition agent_invoke ::
  "world \<Rightarrow> json \<Rightarrow> string \<Rightarrow> string \<Rightarrow> agent_policy \<Rightarrow> locals \<Rightarrow> gateway \<Rightarrow> run"
where
  "agent_invoke w payload agentName intent agentPolicy loc st =
     (let providerName = pickProvider (getprop payload ''provider'') agentPolicy intent;
          loc1 = loc\<lparr>l_providerName := providerName\<rparr>
      in
      if \<not> truthy providerName
      then returns (send 400 (error_reply w ''Provider not configured'') loc1) st
      else if provider_denied agentPolicy providerName
      then returns (send 403 (error_reply w ''Provider not allowed'') loc1) st
      else
     (case w_promptFile w of
        Inl e \<Rightarrow> throws e loc1 st
      | Inr prompts \<Rightarrow>
     (case invokeWithFallback (map_of (w_providers w)) providerName (chain_or_empty agentPolicy)
             \<lparr>arg_input = string_of (getprop payload ''input''),
              arg_system = buildSystemPrompt w prompts agentName intent (getprop payload ''context''),
              arg_context = object_or_empty (getprop payload ''context''),
              arg_requestId = w_randomUUID w,
              arg_agent = agentName,
              arg_intent = intent\<rparr>
      of
        Inl e \<Rightarrow> throws e loc1 st
      | Inr result \<Rightarrow>
          let st2 = st\<lparr>g_windows := RateLimiter_record (w_now_record w) (g_windows st) agentName\<rparr>;
              responsePayload =
                obj [(''status'', Some (JStr ''ok'')),
                     (''provider'', result_provider result),
                     (''output'', Some (JStr (result_output result))),
                     (''request_id'', Some (JStr (w_randomUUID w))),
                     (''metadata'',
                        Some (JObj [(''latency_ms'', JNum (of_int (w_now_end w - w_now_start w))),
                                    (''fallback'', JBool (result_fallback result))]))];
              loc2 = loc1\<lparr>l_status := JStr ''ok'',
                          l_providerName := result_provider result,
                          l_responsePayload := Some (JObj responsePayload)\<rparr>
          in returns (send 200 responsePayload loc2) st2)))"

definition agent_dispatch ::
  "world \<Rightarrow> json \<Rightarrow> string \<Rightarrow> string \<Rightarrow> locals \<Rightarrow> gateway \<Rightarrow> run"
where
  "agent_dispatch w payload agentName intent loc st =
     (case loadPolicy (w_policyFile w) of
        Inl e \<Rightarrow> throws e loc st
      | Inr policy \<Rightarrow>
     (case agents_get policy agentName of
        No_agent \<Rightarrow> returns (send 403 (error_reply w ''Agent not allowed'') loc) st
      | Inherited_member \<Rightarrow> returns (send 403 (error_reply w ''Intent not allowed'') loc) st
      | Policy_of agentPolicy \<Rightarrow>
     (if intent_denied agentPolicy intent
      then returns (send 403 (error_reply w ''Intent not allowed'') loc) st
      else if input_too_large agentPolicy (string_of (getprop payload ''input''))
      then returns (send 413 (error_reply w ''Input too large'') loc) st
      else
        let limit = agentLimit policy agentPolicy;
            (limited, ws) = rate_check w limit agentName (g_windows st);
            st1 = st\<lparr>g_windows := ws\<rparr>
        in
        if limited
        then returns
               (send 429
                  (error_reply w ''Rate limit exceeded'' @
                   [(''metadata'', JObj [(''limit_per_minute'', JNum (of_int limit)),
                                         (''retry_after_seconds'', JNum 60)])]) loc)
               st1
        else agent_invoke w payload agentName intent agentPolicy loc st1)))"

definition agent_route :: "world \<Rightarrow> request \<Rightarrow> locals \<Rightarrow> gateway \<Rightarrow> run" where
  "agent_route w req loc st =
     (if remote_denied w req
      then returns (send 403 (error_reply w ''Remote access denied'') loc) st
      else
        (case readBody req (w_maxBodyBytes w) of
           Inl e \<Rightarrow> throws e loc st
         | Inr body \<Rightarrow>
             (case w_JSON_parse w body of
                None \<Rightarrow> returns (send 400 (error_reply w ''Invalid JSON'') loc) st
              | Some payload \<Rightarrow>
                  (case validateRequest payload of
                     Some validationError \<Rightarrow> returns (send 400 (error_reply w validationError) loc) st
                   | None \<Rightarrow>
                       agent_dispatch w payload
                         (string_of (getprop payload ''agent'')) (string_of (getprop payload ''intent''))
                         (loc\<lparr>l_requestPayload := Some payload,
                               l_agentName := Some (string_of (getprop payload ''agent'')),
                               l_intent := Some (string_of (getprop payload ''intent''))\<rparr>)
                         st))))"

subsection \<open>The handler: try, catch, finally\<close>

definition try_block :: "world \<Rightarrow> request \<Rightarrow> locals \<Rightarrow> gateway \<Rightarrow> run" where
  "try_block w req loc st =
     (if req_method req = ''GET'' \<and> (req_url req = ''/healthz'' \<or> req_url req = ''/health'')
      then health_route w loc st
      else if req_method req = ''GET'' \<and> req_url req = ''/metrics''
      then metrics_route w req loc st
      else if req_method req = ''GET'' \<and> req_url req = ''/v1/agents''
      then agents_route w req loc st
      else if req_method req = ''GET'' \<and> req_url req = ''/v1/worlds''
      then worlds_route w loc st
      else if req_method req = ''GET'' \<and> startsWith (req_url req) ''/v1/memory''
      then memory_route w req loc st
      else if req_method req = ''GET'' \<and> req_url req = ''/v1/providers''
      then providers_route w req loc st
      else if req_method req = ''POST'' \<and> req_url req = ''/v1/verify''
      then verify_route w req loc st
      else if req_method req \<noteq> ''POST'' \<or> req_url req \<noteq> ''/v1/agent''
      then returns (send 404 (error_reply w ''Not found'') loc) st
      else agent_route w req loc st)"

definition catch_block :: "world \<Rightarrow> string \<Rightarrow> locals \<Rightarrow> locals" where
  "catch_block w error loc =
     (let responsePayload0 =
            error_reply w (message_or error ''Gateway error'') @
            [(''metadata'', JObj [(''latency_ms'', JNum (of_int (w_now_end w - w_now_start w)))])];
          responsePayload =
            (case l_providerName loc of
               None \<Rightarrow> responsePayload0
             | Some p \<Rightarrow>
                 if truthy (Some p) then AList.update ''provider'' p responsePayload0
                 else responsePayload0)
      in send 500 responsePayload (loc\<lparr>l_responsePayload := Some (JObj responsePayload)\<rparr>))"

text \<open>
  The number-valued variables that are in scope in the \<open>finally\<close> block:
  \<open>startTime\<close> is the only one the handler declares (\<open>verifyStart\<close> is local to the
  verify branch). Reading any other identifier as a number throws a ReferenceError, the
  file being in strict mode and no such global being defined.
\<close>

definition number_variables :: "world \<Rightarrow> (string \<times> int) list" where
  "number_variables w = [(''startTime'', w_now_start w)]"

definition read_variable :: "world \<Rightarrow> string \<Rightarrow> string + int" where
  "read_variable w name =
     (case map_of (number_variables w) name of
        None \<Rightarrow> Inl (name @ '' is not defined'')
      | Some v \<Rightarrow> Inr v)"

definition null_or :: "json option \<Rightarrow> json" where
  \<comment> \<open>\<open>v || null\<close>\<close>
  "null_or v = (case v of None \<Rightarrow> JNull | Some x \<Rightarrow> if truthy (Some x) then x else JNull)"

definition name_or_null :: "string option \<Rightarrow> json" where
  "name_or_null v = (case v of None \<Rightarrow> JNull | Some s \<Rightarrow> JStr s)"

definition requestLog :: "json option \<Rightarrow> json" where
  "requestLog requestPayload =
     (case requestPayload of
        None \<Rightarrow> JNull
      | Some rp \<Rightarrow>
          if \<not> truthy (Some rp) then JNull
          else JObj (obj [(''agent'', getprop rp ''agent''),
                          (''intent'', getprop rp ''intent''),
                          (''provider'', Some (null_or (getprop rp ''provider''))),
                          (''input'', getprop rp ''input''),
                          (''context'', Some (object_or_empty (getprop rp ''context''))),
                          (''input_bytes'',
                             Some (JNum (of_nat (length (string_of (getprop rp ''input''))))))]))"

definition finally_block :: "world \<Rightarrow> request \<Rightarrow> locals \<Rightarrow> gateway \<Rightarrow> string option \<times> gateway" where
  "finally_block w req loc st =
     (let st1 = st\<lparr>g_metrics :=
                   metrics_record w (l_agentName loc) (l_providerName loc) (l_status loc) (g_metrics st)\<rparr>
      in
      case (case l_agentName loc of
              None \<Rightarrow> Inr st1
            | Some agent \<Rightarrow>
                if agent = [] then Inr st1
                else
                  (case read_variable w ''startMs'' of
                     Inl e \<Rightarrow> Inl e
                   | Inr startMs \<Rightarrow>
                       Inr (st1\<lparr>g_memory :=
                              snd (memory_record w
                                     (obj [(''type'', Some (JStr ''agent_call'')),
                                           (''agent'', Some (JStr agent)),
                                           (''provider'', l_providerName loc),
                                           (''intent'', Some (null_or (map_option JStr (l_intent loc)))),
                                           (''status'', Some (l_status loc)),
                                           (''duration_ms'', Some (JNum (of_int (w_now_end w - startMs))))])
                                     (g_memory st1))\<rparr>)))
      of
        Inl e \<Rightarrow> (Some e, st1)
      | Inr st2 \<Rightarrow>
          (let logEntry =
                 obj [(''timestamp'', Some (JStr (w_timestamp w))),
                      (''request_id'', Some (JStr (w_randomUUID w))),
                      (''agent'', Some (name_or_null (l_agentName loc))),
                      (''intent'', Some (name_or_null (l_intent loc))),
                      (''provider'', l_providerName loc),
                      (''status'', Some (l_status loc)),
                      (''request'', Some (requestLog (l_requestPayload loc))),
                      (''response'', l_responsePayload loc),
                      (''remote_address'',
                         Some (case req_remoteAddress req of
                                 None \<Rightarrow> JNull
                               | Some a \<Rightarrow> if a \<noteq> [] then JStr a else JNull))]
           in (None, if w_log_append_ok w then st2\<lparr>g_accessLog := g_accessLog st2 @ [JObj logEntry]\<rparr>
                     else st2)))"

record outcome =
  o_sent :: "(nat \<times> json) list"
  o_rejected :: "string option"
  o_state :: gateway

definition initial_locals :: locals where
  "initial_locals =
     \<lparr>l_agentName = None, l_intent = None, l_providerName = Some JNull, l_status = JStr ''error'',
      l_responsePayload = Some JNull, l_requestPayload = Some JNull, l_sent = []\<rparr>"

text \<open>
  One run of the request listener. \<open>o_rejected\<close> is the error with which the promise
  of the asynchronous listener rejects, that is, an error that leaves the handler.
\<close>

definition handler :: "world \<Rightarrow> request \<Rightarrow> gateway \<Rightarrow> outcome" where
  "handler w req st =
     (let (thrown, loc1, st1) = try_block w req initial_locals st;
          loc2 = (case thrown of None \<Rightarrow> loc1 | Some error \<Rightarrow> catch_block w error loc1);
          (rejected, st2) = finally_block w req loc2 st1
      in \<lparr>o_sent = l_sent loc2, o_rejected = rejected, o_state = st2\<rparr>)"


text \<open>The policy with the allowed intents of every agent replaced.\<close>

definition with_allowed_intents :: "(string \<Rightarrow> string list option) \<Rightarrow> policy \<Rightarrow> policy" where
  "with_allowed_intents f p =
     p\<lparr>agents := map_option (map (\<lambda>(name, cfg). (name, cfg\<lparr>allowed_intents := f name\<rparr>))) (agents p)\<rparr>"

definition policyFile_with_allowed_intents ::
  "(string \<Rightarrow> string list option) \<Rightarrow> string + policy option \<Rightarrow> string + policy option"
where
  "policyFile_with_allowed_intents f file =
     (case file of
        Inl e \<Rightarrow> Inl e
      | Inr None \<Rightarrow> Inr None
      | Inr (Some p) \<Rightarrow> Inr (Some (with_allowed_intents f p)))"

section \<open>A concrete gateway\<close>

text \<open>
  A policy whose agent \<open>planner\<close> sets \<open>rate_limit_per_minute\<close> to 0 while the
  global default is 1, and whose agent \<open>prism\<close> does not allow the intent
  \<open>analyze\<close>; one adapter, which answers \<open>hello\<close> to \<open>planner\<close> and a JSON
  object followed by a second pair of braces to \<open>prism\<close>; \<open>JSON.parse\<close> restricted
  to the three texts that occur.
\<close>

definition demo_policy :: policy where
  "demo_policy =
     \<lparr>global = Some \<lparr>global_rate_limit_per_minute = Some 1\<rparr>,
      agents = Some [(''planner'',
                      \<lparr>description = None, allowed_intents = Some [''analyze''],
                       allowed_providers = Some [''ollama''], default_provider = Some ''ollama'',
                       intent_routes = None, fallback_chain = Some [],
                       max_input_bytes = Some 1048576, rate_limit_per_minute = Some 0\<rparr>),
                     (''prism'',
                      \<lparr>description = None, allowed_intents = Some [''correlate''],
                       allowed_providers = Some [''ollama''], default_provider = Some ''ollama'',
                       intent_routes = None, fallback_chain = Some [],
                       max_input_bytes = Some 1048576, rate_limit_per_minute = None\<rparr>)]\<rparr>"

definition demo_body :: string where
  "demo_body =
     ''{'' @ quoted ''agent'' @ '':'' @ quoted ''planner'' @ '','' @ quoted ''intent'' @ '':''
     @ quoted ''analyze'' @ '','' @ quoted ''input'' @ '':'' @ quoted ''hi'' @ ''}''"

definition demo_payload :: json where
  "demo_payload =
     JObj [(''agent'', JStr ''planner''), (''intent'', JStr ''analyze''), (''input'', JStr ''hi'')]"

definition demo_reply :: string where
  "demo_reply = ''{'' @ quoted ''verdict'' @ '':'' @ quoted ''false'' @ ''} {}''"

definition demo_reply_object :: string where
  "demo_reply_object = ''{'' @ quoted ''verdict'' @ '':'' @ quoted ''false'' @ ''}''"

definition demo_claim_body :: string where
  "demo_claim_body = ''{'' @ quoted ''claim'' @ '':'' @ quoted ''the sky is green'' @ ''}''"

definition demo_world :: world where
  "demo_world =
     \<lparr>w_allowRemote = False,
      w_maxBodyBytes = 1048576,
      w_policyFile = Inr (Some demo_policy),
      w_promptFile = Inr None,
      w_providers = [(''ollama'', \<lambda>args. if arg_agent args = ''prism'' then Inr demo_reply
                                        else Inr ''hello'')],
      w_worldsFeed = Inl ''fetch failed'',
      w_JSON_parse = (\<lambda>s. if s = demo_body then Some demo_payload
                          else if s = demo_claim_body then Some (JObj [(''claim'', JStr ''the sky is green'')])
                          else if s = demo_reply_object then Some (JObj [(''verdict'', JStr ''false'')])
                          else None),
      w_JSON_stringify = (\<lambda>v. []),
      w_String = (\<lambda>v. []),
      w_coerced_gt_zero = (\<lambda>v. False),
      w_parseInt = (\<lambda>s. None),
      w_url_pathname = (\<lambda>s. s),
      w_url_limit = (\<lambda>s. None),
      w_sha256_16 = (\<lambda>prev data. ''0000000000000000''),
      w_randomUUID = ''1b4e28ba-2fa1-4d3b-a3f5-ef19b5a7633b'',
      w_verifyUUID = ''6fa459ea-ee8a-4ca4-894e-db77e160355e'',
      w_now_start = 60000,
      w_now = 60000,
      w_now_record = 60010,
      w_now_end = 60010,
      w_timestamp = ''2026-01-01T00:01:00.000Z'',
      w_uptime = 60,
      w_mkdir_ok = True,
      w_journal_read_ok = True,
      w_contextFile = None,
      w_journal_append_ok = True,
      w_log_append_ok = True\<rparr>"

definition demo_request :: request where
  "demo_request =
     \<lparr>req_method = ''POST'', req_url = ''/v1/agent'', req_remoteAddress = Some ''127.0.0.1'',
      req_body = Inr demo_body\<rparr>"

definition new_gateway :: gateway where
  "new_gateway =
     \<lparr>g_windows = Map.empty,
      g_metrics = \<lparr>totalRequests = 0, totalErrors = 0, totalOk = 0, byAgent = [], byProvider = [],
                   startTime = 0\<rparr>,
      g_memory = \<lparr>lastHash = Some (JStr ''GENESIS''), mem_context = [], sessionCounts = [],
                  initialized = False, journal = []\<rparr>,
      g_accessLog = []\<rparr>"

definition busy_gateway :: gateway where
  \<comment> \<open>\<open>planner\<close> has one call recorded at 59000 ms\<close>
  "busy_gateway = new_gateway\<lparr>g_windows := [''planner'' \<mapsto> [59000]]\<rparr>"

definition lost_request :: request where
  "lost_request =
     \<lparr>req_method = ''GET'', req_url = ''/nowhere'', req_remoteAddress = Some ''203.0.113.9'',
      req_body = Inr []\<rparr>"

definition verify_request :: request where
  "verify_request =
     \<lparr>req_method = ''POST'', req_url = ''/v1/verify'', req_remoteAddress = Some ''203.0.113.9'',
      req_body = Inr demo_claim_body\<rparr>"

section \<open>Properties of runs\<close>

text \<open>
  A response envelope is well formed when an error status comes with the empty output.
  A run of the \<open>try\<close> block replies once when, if it returns, it has sent exactly one
  more envelope, a well-formed one, and, if it throws, it has sent none.
\<close>

definition envelope_ok :: "json \<Rightarrow> bool" where
  "envelope_ok p =
     (getprop p ''status'' = Some (JStr ''error'') \<longrightarrow> getprop p ''output'' = Some (JStr []))"

definition replies_once :: "(nat \<times> json) list \<Rightarrow> run \<Rightarrow> bool" where
  "replies_once before r =
     (case r of
        (None, loc, st) \<Rightarrow> (\<exists>code p. l_sent loc = before @ [(code, p)] \<and> envelope_ok p)
      | (Some e, loc, st) \<Rightarrow> l_sent loc = before)"

definition tried_once :: "(nat \<times> json) list \<Rightarrow> string + run \<Rightarrow> bool" where
  "tried_once before x = (case x of Inl e \<Rightarrow> True | Inr r \<Rightarrow> replies_once before r)"



text \<open>
  What a run of the \<open>try\<close> block shows to the client and to the \<open>catch\<close> block:
  whether it threw, and the variables, without the gateway state.
\<close>

definition run_reply :: "run \<Rightarrow> string option \<times> locals" where
  "run_reply r = (case r of (thrown, loc, st) \<Rightarrow> (thrown, loc))"

definition tried_reply :: "string + run \<Rightarrow> string + string option \<times> locals" where
  "tried_reply x = (case x of Inl e \<Rightarrow> Inl e | Inr r \<Rightarrow> Inr (run_reply r))"

text \<open>
  A run answers within a set of status codes and leaves the rate limiter alone when it
  returns, has sent one more envelope with a code of the set, and the windows are the
  given ones.
\<close>

definition answers_within :: "nat set \<Rightarrow> (nat \<times> json) list \<Rightarrow> windows \<Rightarrow> run \<Rightarrow> bool" where
  "answers_within codes before ws r =
     (case r of
        (thrown, loc, st) \<Rightarrow>
          thrown = None \<and> (\<exists>code p. l_sent loc = before @ [(code, p)] \<and> code \<in> codes)
          \<and> g_windows st = ws)"

definition tried_within :: "nat set \<Rightarrow> (nat \<times> json) list \<Rightarrow> windows \<Rightarrow> string + run \<Rightarrow> bool" where
  "tried_within codes before ws x =
     (case x of Inl e \<Rightarrow> True | Inr r \<Rightarrow> answers_within codes before ws r)"

section \<open>Rate limiter: usage and check\<close>

lemma shift_expired_id: "\<forall>t \<in> set es. \<not> t < c \<Longrightarrow> shift_expired c es = es"
  by (cases es) auto

lemma record_calls_lookup:
  "record_calls calls ws agent =
     (if [c \<leftarrow> calls. fst c = agent] = [] then ws agent
      else Some ((case ws agent of None \<Rightarrow> [] | Some es \<Rightarrow> es) @ map snd [c \<leftarrow> calls. fst c = agent]))"
proof (induction calls arbitrary: ws)
  case Nil
  then show ?case by simp
next
  case (Cons c calls)
  obtain a t where c: "c = (a, t)" by (cases c)
  show ?case
    unfolding c by (simp add: Cons.IH RateLimiter_record_def Let_def)
qed

text \<open>
  Claim C6. Start from a new limiter and make any sequence of \<open>record\<close> calls, for
  any agents. If none of the timestamps recorded for \<open>agent\<close> is older than 60000 ms
  at the time \<open>now\<close> of the query, then \<open>getUsage(agent)\<close> is the number of
  \<open>record(agent)\<close> calls made, and for a positive limit \<open>check(agent, limit)\<close>
  holds exactly when that usage is below the limit. \<open>check(agent, 0)\<close> holds in
  every state of the limiter, whatever was recorded.
\<close>

theorem RateLimiter_usage_and_check:
  "((\<forall>(a, t) \<in> set calls. a = agent \<longrightarrow> \<not> t < now - 60000) \<longrightarrow>
      fst (RateLimiter_getUsage now (record_calls calls Map.empty) agent)
        = length [c \<leftarrow> calls. fst c = agent]
      \<and> (0 < limit \<longrightarrow>
           (fst (RateLimiter_check now (record_calls calls Map.empty) agent limit)
              \<longleftrightarrow> int (fst (RateLimiter_getUsage now (record_calls calls Map.empty) agent)) < limit)))
   \<and> fst (RateLimiter_check now ws agent 0)"
proof -
  let ?ts = "map snd [c \<leftarrow> calls. fst c = agent]"
  have ws: "record_calls calls Map.empty agent = (if ?ts = [] then None else Some ?ts)"
    by (simp add: record_calls_lookup)
  have zero: "fst (RateLimiter_check now ws agent 0)"
    by (simp add: RateLimiter_check_def)
  have window: "fst (RateLimiter_getUsage now (record_calls calls Map.empty) agent)
        = length [c \<leftarrow> calls. fst c = agent]
      \<and> (0 < limit \<longrightarrow>
           (fst (RateLimiter_check now (record_calls calls Map.empty) agent limit)
              \<longleftrightarrow> int (fst (RateLimiter_getUsage now (record_calls calls Map.empty) agent)) < limit))"
    if inside: "\<forall>(a, t) \<in> set calls. a = agent \<longrightarrow> \<not> t < now - 60000"
  proof -
    have keep: "shift_expired (now - 60000) ?ts = ?ts"
      using inside by (intro shift_expired_id) auto
    show ?thesis
      using keep
      by (simp add: ws RateLimiter_getUsage_def RateLimiter_check_def RateLimiter_prune_def Let_def)
  qed
  show ?thesis using zero window by blast
qed

theorem RateLimiter_usage_and_check_witness:
  "fst (RateLimiter_getUsage 1000
          (record_calls [(''test-agent'', 10), (''test-agent'', 20), (''other'', 30)] Map.empty)
          ''test-agent'') = 2
   \<and> \<not> fst (RateLimiter_check 1000
          (record_calls [(''test-agent'', 10), (''test-agent'', 20), (''other'', 30)] Map.empty)
          ''test-agent'' 2)
   \<and> fst (RateLimiter_check 1000
          (record_calls [(''test-agent'', 10), (''test-agent'', 20), (''other'', 30)] Map.empty)
          ''test-agent'' 3)"
  using RateLimiter_usage_and_check
          [of "[(''test-agent'', 10), (''test-agent'', 20), (''other'', 30)]" "''test-agent''" 1000 2]
        RateLimiter_usage_and_check
          [of "[(''test-agent'', 10), (''test-agent'', 20), (''other'', 30)]" "''test-agent''" 1000 3]
  by simp

section \<open>Provider selection\<close>

lemma not_inherited:
  "k \<notin> set object_prototype_names \<Longrightarrow> object_get kvs k = map_of kvs k"
  by (simp add: object_get_def inherited_def split: option.split)

lemma intent_route_own:
  "intent \<notin> set object_prototype_names \<Longrightarrow>
   intent_route policy intent =
     (case intent_routes policy of None \<Rightarrow> None | Some routes \<Rightarrow> map_option JStr (map_of routes intent))"
  by (simp add: intent_route_def not_inherited map_of_map split: option.split)

lemma intent_route_set:
  "intent_routes policy = Some routes \<Longrightarrow> map_of routes intent = Some route \<Longrightarrow>
   intent_route policy intent = Some (JStr route)"
  by (simp add: intent_route_def object_get_def map_of_map)

lemma intent_route_inherited:
  "intent_routes policy = Some routes \<Longrightarrow> map_of routes intent = None \<Longrightarrow>
   intent \<in> set object_prototype_names \<Longrightarrow>
   intent_route policy intent = Some (JBuiltin intent)"
  by (simp add: intent_route_def object_get_def inherited_def map_of_map)

text \<open>
  The order of \<open>pickProvider\<close>, for every policy and every intent. A requested name
  that is not empty is returned. When the request names no provider (undefined, null or
  the empty string), a route of the policy for the intent that is not empty is returned;
  when the policy has no routes, or the route for the intent is the empty string, or
  there is no route for the intent and Object.prototype does not name the intent, the
  default provider is returned if it is set and not empty, and null otherwise. For an
  intent that Object.prototype names and the routes do not, the inherited member is
  returned instead of the default provider or null.
\<close>

lemma pickProvider_order:
  "(requested \<noteq> [] \<longrightarrow> pickProvider (Some (JStr requested)) policy intent = Some (JStr requested))
   \<and> (absent \<in> {None, Some JNull, Some (JStr [])} \<longrightarrow>
        (\<forall>routes route. intent_routes policy = Some routes \<and> map_of routes intent = Some route \<and> route \<noteq> []
            \<longrightarrow> pickProvider absent policy intent = Some (JStr route))
      \<and> (intent_routes policy = None
           \<or> (\<exists>routes. intent_routes policy = Some routes
                 \<and> (map_of routes intent = Some []
                      \<or> map_of routes intent = None \<and> intent \<notin> set object_prototype_names))
          \<longrightarrow> (\<forall>d. default_provider policy = Some d \<and> d \<noteq> []
                  \<longrightarrow> pickProvider absent policy intent = Some (JStr d))
            \<and> (default_provider policy \<in> {None, Some []}
                  \<longrightarrow> pickProvider absent policy intent = Some JNull))
      \<and> (\<forall>routes. intent \<in> set object_prototype_names
             \<and> intent_routes policy = Some routes \<and> map_of routes intent = None
          \<longrightarrow> pickProvider absent policy intent = Some (JBuiltin intent)))"
proof -
  have first: "requested \<noteq> [] \<longrightarrow>
      pickProvider (Some (JStr requested)) policy intent = Some (JStr requested)"
    by (simp add: pickProvider_def)
  have rest: "(\<forall>routes route. intent_routes policy = Some routes \<and> map_of routes intent = Some route \<and> route \<noteq> []
            \<longrightarrow> pickProvider absent policy intent = Some (JStr route))
      \<and> (intent_routes policy = None
           \<or> (\<exists>routes. intent_routes policy = Some routes
                 \<and> (map_of routes intent = Some []
                      \<or> map_of routes intent = None \<and> intent \<notin> set object_prototype_names))
          \<longrightarrow> (\<forall>d. default_provider policy = Some d \<and> d \<noteq> []
                  \<longrightarrow> pickProvider absent policy intent = Some (JStr d))
            \<and> (default_provider policy \<in> {None, Some []}
                  \<longrightarrow> pickProvider absent policy intent = Some JNull))
      \<and> (\<forall>routes. intent \<in> set object_prototype_names
             \<and> intent_routes policy = Some routes \<and> map_of routes intent = None
          \<longrightarrow> pickProvider absent policy intent = Some (JBuiltin intent))"
    if "absent \<in> {None, Some JNull, Some (JStr [])}"
  proof -
    from that have falsy: "\<not> truthy absent" by auto
    have routed: "pickProvider absent policy intent = Some (JStr route)"
      if "intent_routes policy = Some routes" "map_of routes intent = Some route" "route \<noteq> []"
      for routes route
      using that falsy by (simp add: pickProvider_def intent_route_set)
    have unrouted: "\<not> truthy (intent_route policy intent)"
      if "intent_routes policy = None
           \<or> (\<exists>routes. intent_routes policy = Some routes
                 \<and> (map_of routes intent = Some []
                      \<or> map_of routes intent = None \<and> intent \<notin> set object_prototype_names))"
      using that by (auto simp: intent_route_def object_get_def inherited_def map_of_map)
    have by_default: "pickProvider absent policy intent = Some (JStr d)"
      if "\<not> truthy (intent_route policy intent)" "default_provider policy = Some d" "d \<noteq> []" for d
      using that falsy by (simp add: pickProvider_def)
    have null: "pickProvider absent policy intent = Some JNull"
      if "\<not> truthy (intent_route policy intent)" "default_provider policy \<in> {None, Some []}"
      using that falsy by (auto simp: pickProvider_def)
    have member: "pickProvider absent policy intent = Some (JBuiltin intent)"
      if "intent \<in> set object_prototype_names" "intent_routes policy = Some routes"
         "map_of routes intent = None" for routes
      using that falsy by (simp add: pickProvider_def intent_route_inherited)
    show ?thesis using routed unrouted by_default null member by blast
  qed
  show ?thesis using first rest by blast
qed

lemma pickProvider_test_suite:
  "pickProvider (Some (JStr ''openai'')) suite_policy ''analyze'' = Some (JStr ''openai'')
   \<and> pickProvider (Some JNull) suite_policy ''plan'' = Some (JStr ''claude'')
   \<and> pickProvider (Some JNull) suite_policy ''analyze'' = Some (JStr ''ollama'')
   \<and> pickProvider (Some JNull) suite_policy ''unknown'' = Some (JStr ''ollama'')
   \<and> pickProvider (Some JNull) (suite_policy\<lparr>default_provider := None, intent_routes := Some []\<rparr>)
        ''anything'' = Some JNull"
  by (simp add: pickProvider_def intent_route_def object_get_def inherited_def
        object_prototype_names_def suite_policy_def)

text \<open>
  Claim C5 says that, for every intent, \<open>pickProvider\<close> returns the default provider
  when the request names no provider and the policy has no route for the intent, and
  null when there is no default either; the test suite says the same of an unknown
  intent. The code at the intents \<open>constructor\<close> and \<open>toString\<close>, for which the
  policies of the test suite have no route: the read \<open>policy.intent_routes[intent]\<close>
  finds the function inherited from Object.prototype, and \<open>pickProvider\<close> returns that
  function, not \<open>ollama\<close> and not null.
\<close>

theorem pickProvider_returns_inherited_member:
  "intent_routes suite_policy = Some [(''analyze'', ''ollama''), (''plan'', ''claude'')]
   \<and> default_provider suite_policy = Some ''ollama''
   \<and> pickProvider (Some JNull) suite_policy ''constructor'' = Some (JBuiltin ''constructor'')
   \<and> pickProvider (Some JNull) suite_policy ''constructor'' \<noteq> Some (JStr ''ollama'')
   \<and> pickProvider (Some JNull) (suite_policy\<lparr>default_provider := None, intent_routes := Some []\<rparr>)
        ''toString'' = Some (JBuiltin ''toString'')"
  by (simp add: pickProvider_def intent_route_def object_get_def inherited_def
        object_prototype_names_def suite_policy_def)

section \<open>Invocation with fallback\<close>

lemma toLowerCase_names:
  "toLowerCase ''ollama'' = ''ollama''" "toLowerCase ''openai'' = ''openai''"
  "toLowerCase ''groq'' = ''groq''" "toLowerCase ''Ollama'' = ''ollama''"
  by (simp_all add: toLowerCase_def lower_char_def)

lemma try_fallbacks_all_fail:
  "\<forall>name \<in> set chain. \<not> fallback_succeeds providers primaryProvider args name \<Longrightarrow>
   try_fallbacks providers primaryProvider chain args errors =
     Inl (''All providers failed: '' @
          join ''; '' (errors @ fallback_errors providers primaryProvider chain args))"
proof (induction chain arbitrary: errors)
  case Nil
  then show ?case by (simp add: fallback_errors_def List.map_filter_simps)
next
  case (Cons name rest)
  have rest: "\<forall>n \<in> set rest. \<not> fallback_succeeds providers primaryProvider args n"
    using Cons.prems by simp
  have head: "\<not> fallback_succeeds providers primaryProvider args name"
    using Cons.prems by simp
  note IH = Cons.IH [OF rest]
  show ?case
  proof (cases "Some (JStr name) = primaryProvider")
    case True
    then show ?thesis
      using IH [of errors] by (simp add: fallback_errors_def List.map_filter_simps)
  next
    case False
    show ?thesis
    proof (cases "providers (toLowerCase name)")
      case None
      then show ?thesis
        using False IH [of errors]
        by (simp add: fallback_errors_def List.map_filter_simps getProvider_def)
    next
      case (Some fb)
      then obtain msg where msg: "fb args = Inl msg"
        using head False by (cases "fb args") (auto simp: fallback_succeeds_def)
      show ?thesis
        using False Some msg IH [of "errors @ [name @ '': '' @ msg]"]
        by (simp add: fallback_errors_def List.map_filter_simps getProvider_def)
    qed
  qed
qed

text \<open>
  Claim C3, as the code has it. When the primary resolves and its \<open>invoke\<close> throws,
  the chain is not empty and no fallback returns text, \<open>invokeWithFallback\<close> fails
  with \<open>All providers failed: \<close> followed by the entries \<open>name: message\<close> of the
  fallbacks that were attempted, joined by \<open>; \<close>. The array \<open>errors\<close> is created
  after the primary's attempt, so the primary and its message are not in the list.
\<close>

theorem invokeWithFallback_all_failed:
  assumes "providers (toLowerCase primary) = Some p" and "p args = Inl err"
    and "chain \<noteq> []"
    and "\<forall>name \<in> set chain. \<not> fallback_succeeds providers (Some (JStr primary)) args name"
  shows "invokeWithFallback providers (Some (JStr primary)) (Some chain) args =
           Inl (''All providers failed: '' @
                join ''; '' (fallback_errors providers (Some (JStr primary)) chain args))"
  using assms try_fallbacks_all_fail [of chain providers "Some (JStr primary)" args "[]"]
  by (simp add: invokeWithFallback_def try_chain_def getProvider_def chain_empty_def)

theorem invokeWithFallback_all_failed_witness:
  "invokeWithFallback failing_registry (Some (JStr ''ollama''))
     (Some [''ollama'', ''groq'', ''openai'']) () =
     Inl ''All providers failed: openai: Missing BLACKROAD_OPENAI_API_KEY''"
proof -
  have "invokeWithFallback failing_registry (Some (JStr ''ollama''))
          (Some [''ollama'', ''groq'', ''openai'']) () =
           Inl (''All providers failed: '' @
                join ''; '' (fallback_errors failing_registry (Some (JStr ''ollama''))
                               [''ollama'', ''groq'', ''openai''] ()))"
    by (rule invokeWithFallback_all_failed
          [where p = "\<lambda>u. Inl ''fetch failed''" and err = "''fetch failed''"])
       (simp_all add: toLowerCase_names failing_registry_def fallback_succeeds_def)
  then show ?thesis
    by (simp add: toLowerCase_names fallback_errors_def List.map_filter_simps failing_registry_def)
qed

text \<open>
  The claim as the specification words it fails: with the primary \<open>ollama\<close> throwing
  and the only fallback \<open>openai\<close> throwing, the composite error names \<open>openai\<close>
  alone; \<open>ollama\<close>, which was attempted, occurs nowhere in the message.
\<close>

theorem invokeWithFallback_primary_not_listed:
  "invokeWithFallback failing_registry (Some (JStr ''ollama'')) (Some [''openai'']) () =
     Inl ''All providers failed: openai: Missing BLACKROAD_OPENAI_API_KEY''
   \<and> \<not> str_includes ''All providers failed: openai: Missing BLACKROAD_OPENAI_API_KEY'' ''ollama''"
  by (simp add: toLowerCase_names invokeWithFallback_def try_chain_def getProvider_def chain_empty_def
        failing_registry_def)

text \<open>
  Claim C4. With a fallback chain that is absent or empty, a primary that resolves and
  throws makes \<open>invokeWithFallback\<close> fail with that very error, and a primary that
  the registry does not resolve makes it fail with \<open>No provider available\<close>, which
  is not of the form \<open>All providers failed\<close>.
\<close>

theorem invokeWithFallback_empty_chain:
  assumes "fallbackChain = None \<or> fallbackChain = Some []"
  shows "(\<forall>p err. providers (toLowerCase primary) = Some p \<and> p args = Inl err \<longrightarrow>
            invokeWithFallback providers (Some (JStr primary)) fallbackChain args = Inl err)
       \<and> (providers (toLowerCase primary) = None \<longrightarrow>
            invokeWithFallback providers (Some (JStr primary)) fallbackChain args
              = Inl ''No provider available'')
       \<and> \<not> startsWith ''No provider available'' ''All providers failed''"
  using assms by (auto simp: invokeWithFallback_def try_chain_def getProvider_def chain_empty_def)

theorem invokeWithFallback_empty_chain_witness:
  "invokeWithFallback failing_registry (Some (JStr ''Ollama'')) (Some []) () = Inl ''fetch failed''
   \<and> invokeWithFallback failing_registry (Some (JStr ''groq'')) None ()
       = Inl ''No provider available''"
  using invokeWithFallback_empty_chain [of "Some []" failing_registry "''Ollama''" "()"]
        invokeWithFallback_empty_chain [of None failing_registry "''groq''" "()"]
  by (simp add: toLowerCase_names failing_registry_def)

section \<open>One response per request\<close>

lemma returns_send:
  "l_sent loc = before \<Longrightarrow>
   (map_of p0 ''status'' = Some (JStr ''error'') \<longrightarrow> map_of p0 ''output'' = None) \<Longrightarrow>
   replies_once before (returns (send code p0 loc) st)"
  by (auto simp: replies_once_def returns_def send_def envelope_ok_def update_conv' Let_def)

lemma throws_none: "l_sent loc = before \<Longrightarrow> replies_once before (throws e loc st)"
  by (simp add: replies_once_def throws_def)

lemma error_reply_no_output: "map_of (error_reply w m) ''output'' = None"
  by (simp add: error_reply_def)

lemma obj_status_ok:
  "map_of (obj ((''status'', Some (JStr ''ok'')) # rest)) ''status'' = Some (JStr ''ok'')"
  by (simp add: obj_def List.map_filter_simps)

lemmas once_simps = returns_send throws_none error_reply_no_output obj_status_ok Let_def

lemma health_once: "l_sent loc = before \<Longrightarrow> replies_once before (health_route w loc st)"
  by (simp add: health_route_def once_simps)

lemma metrics_once: "l_sent loc = before \<Longrightarrow> replies_once before (metrics_route w req loc st)"
  by (simp add: metrics_route_def once_simps)

lemma agents_once: "l_sent loc = before \<Longrightarrow> replies_once before (agents_route w req loc st)"
  by (simp add: agents_route_def once_simps split: sum.split prod.split)

lemma worlds_once: "l_sent loc = before \<Longrightarrow> replies_once before (worlds_route w loc st)"
  by (simp add: worlds_route_def once_simps split: sum.split)

lemma memory_once: "l_sent loc = before \<Longrightarrow> replies_once before (memory_route w req loc st)"
  by (simp add: memory_route_def once_simps split: prod.split)

lemma providers_once: "l_sent loc = before \<Longrightarrow> replies_once before (providers_route w req loc st)"
  by (simp add: providers_route_def once_simps)

lemma verify_respond_once:
  "l_sent loc = before \<Longrightarrow> replies_once before (verify_respond w a i sources result loc st)"
  by (simp add: verify_respond_def once_simps split: prod.split)

lemma tried_once_simps:
  "tried_once before (Inl e)" "tried_once before (Inr r) = replies_once before r"
  by (simp_all add: tried_once_def)

lemma verify_claim_once:
  "l_sent loc = before \<Longrightarrow> tried_once before (verify_claim w claim sources threshold loc st)"
  by (simp add: verify_claim_def verify_respond_once tried_once_simps once_simps
        split: sum.split option.split)

lemma verify_try_once:
  "l_sent loc = before \<Longrightarrow> tried_once before (verify_try w req loc st)"
  by (simp add: verify_try_def verify_claim_once tried_once_simps once_simps
        split: sum.split option.split)

lemma verify_once: "l_sent loc = before \<Longrightarrow> replies_once before (verify_route w req loc st)"
  using verify_try_once [of loc before w req st]
  by (auto simp: verify_route_def tried_once_def once_simps split: sum.splits)

lemma invoke_once:
  "l_sent loc = before \<Longrightarrow> replies_once before (agent_invoke w payload a i ap loc st)"
  by (simp add: agent_invoke_def once_simps split: sum.split)

lemma dispatch_once:
  "l_sent loc = before \<Longrightarrow> replies_once before (agent_dispatch w payload a i loc st)"
  by (simp add: agent_dispatch_def invoke_once once_simps
        split: sum.split option.split prod.split agent_lookup.split)

lemma agent_once: "l_sent loc = before \<Longrightarrow> replies_once before (agent_route w req loc st)"
  by (simp add: agent_route_def dispatch_once once_simps split: sum.split option.split)

lemma try_block_once: "l_sent loc = before \<Longrightarrow> replies_once before (try_block w req loc st)"
  by (simp add: try_block_def health_once metrics_once agents_once worlds_once memory_once
        providers_once verify_once agent_once once_simps)

lemma catch_once:
  "l_sent loc = before \<Longrightarrow>
   \<exists>p. l_sent (catch_block w e loc) = before @ [(500, p)] \<and> envelope_ok p"
  by (auto simp: catch_block_def send_def envelope_ok_def update_conv' error_reply_def Let_def
           split: option.split)

text \<open>
  Claim C8. Every run of the handler writes exactly one response envelope, whatever the
  request and whatever the files, providers and clock do; and an envelope whose
  \<open>status\<close> is \<open>error\<close> has the empty string as its \<open>output\<close>. "Sent"
  means written with \<open>send\<close>: the model does not say whether the bytes reach a
  client whose connection \<open>readBody\<close> has destroyed.
\<close>

theorem handler_one_response:
  "length (o_sent (handler w req st)) = 1
   \<and> (\<forall>(code, p) \<in> set (o_sent (handler w req st)).
         getprop p ''status'' = Some (JStr ''error'') \<longrightarrow> getprop p ''output'' = Some (JStr []))"
proof -
  obtain thrown loc1 st1 where run: "try_block w req initial_locals st = (thrown, loc1, st1)"
    by (cases "try_block w req initial_locals st") auto
  have "l_sent initial_locals = []"
    by (simp add: initial_locals_def)
  from try_block_once [OF this, of w req st]
  have once: "replies_once [] (thrown, loc1, st1)"
    by (simp add: run)
  define loc2 where "loc2 = (case thrown of None \<Rightarrow> loc1 | Some error \<Rightarrow> catch_block w error loc1)"
  have sent: "o_sent (handler w req st) = l_sent loc2"
    by (simp add: handler_def run loc2_def Let_def split: prod.split)
  have "\<exists>code p. l_sent loc2 = [(code, p)] \<and> envelope_ok p"
  proof (cases thrown)
    case None
    then show ?thesis using once by (simp add: replies_once_def loc2_def)
  next
    case (Some e)
    then have "l_sent loc1 = []" using once by (simp add: replies_once_def)
    from catch_once [OF this, of w e] show ?thesis by (auto simp: loc2_def Some)
  qed
  then show ?thesis by (auto simp: sent envelope_ok_def)
qed


section \<open>The handler on a concrete gateway\<close>

lemma demo_world_fields:
  "w_allowRemote demo_world = False"
  "w_maxBodyBytes demo_world = 1048576"
  "w_policyFile demo_world = Inr (Some demo_policy)"
  "w_promptFile demo_world = Inr None"
  "w_providers demo_world =
     [(''ollama'', \<lambda>args. if arg_agent args = ''prism'' then Inr demo_reply else Inr ''hello'')]"
  "w_randomUUID demo_world = ''1b4e28ba-2fa1-4d3b-a3f5-ef19b5a7633b''"
  "w_verifyUUID demo_world = ''6fa459ea-ee8a-4ca4-894e-db77e160355e''"
  "w_now_start demo_world = 60000"
  "w_now demo_world = 60000"
  "w_now_record demo_world = 60010"
  "w_now_end demo_world = 60010"
  "w_timestamp demo_world = ''2026-01-01T00:01:00.000Z''"
  "w_mkdir_ok demo_world = True"
  "w_journal_read_ok demo_world = True"
  "w_contextFile demo_world = None"
  "w_journal_append_ok demo_world = True"
  "w_log_append_ok demo_world = True"
  "w_sha256_16 demo_world prev data = ''0000000000000000''"
  "w_String demo_world v = []"
  by (simp_all add: demo_world_def)

lemma demo_parse:
  "w_JSON_parse demo_world demo_body = Some demo_payload"
  "w_JSON_parse demo_world demo_claim_body = Some (JObj [(''claim'', JStr ''the sky is green'')])"
  "w_JSON_parse demo_world demo_reply_object = Some (JObj [(''verdict'', JStr ''false'')])"
  "w_JSON_parse demo_world demo_reply = None"
  by (simp_all add: demo_world_def demo_body_def demo_claim_body_def demo_reply_object_def
        demo_reply_def quoted_def)

lemma demo_body_small: "\<not> 1048576 < length demo_body" "\<not> 65536 < length demo_claim_body"
  by (simp_all add: demo_body_def demo_claim_body_def quoted_def)

lemma lower_ollama: "toLowerCase ''ollama'' = ''ollama''"
  by (simp add: toLowerCase_def lower_char_def)

lemma demo_validate: "validateRequest demo_payload = None"
  by (simp add: validateRequest_def demo_payload_def)

lemma demo_payload_props:
  "getprop demo_payload ''agent'' = Some (JStr ''planner'')"
  "getprop demo_payload ''intent'' = Some (JStr ''analyze'')"
  "getprop demo_payload ''input'' = Some (JStr ''hi'')"
  "getprop demo_payload ''provider'' = None"
  "getprop demo_payload ''context'' = None"
  by (simp_all add: demo_payload_def)

lemma demo_planner:
  "loadPolicy (Inr (Some demo_policy)) = Inr demo_policy"
  "map_of (policy_agents demo_policy) ''planner'' =
     Some \<lparr>description = None, allowed_intents = Some [''analyze''],
           allowed_providers = Some [''ollama''], default_provider = Some ''ollama'',
           intent_routes = None, fallback_chain = Some [],
           max_input_bytes = Some 1048576, rate_limit_per_minute = Some 0\<rparr>"
  "global demo_policy = Some \<lparr>global_rate_limit_per_minute = Some 1\<rparr>"
  "agents_get demo_policy ''planner'' =
     Policy_of \<lparr>description = None, allowed_intents = Some [''analyze''],
           allowed_providers = Some [''ollama''], default_provider = Some ''ollama'',
           intent_routes = None, fallback_chain = Some [],
           max_input_bytes = Some 1048576, rate_limit_per_minute = Some 0\<rparr>"
  by (simp_all add: loadPolicy_def demo_policy_def policy_agents_def agents_get_def)

lemma demo_lost:
  "o_sent (handler demo_world lost_request new_gateway) =
     [(404, JObj [(''status'', JStr ''error''), (''error'', JStr ''Not found''),
                  (''request_id'', JStr ''1b4e28ba-2fa1-4d3b-a3f5-ef19b5a7633b''),
                  (''output'', JStr [])])]"
  by (simp add: handler_def try_block_def lost_request_def returns_def send_def error_reply_def
        demo_world_fields initial_locals_def Let_def split: prod.split)

lemma demo_limited:
  "try_block demo_world demo_request initial_locals busy_gateway =
     returns
       (send 429
          [(''status'', JStr ''error''), (''error'', JStr ''Rate limit exceeded''),
           (''request_id'', JStr ''1b4e28ba-2fa1-4d3b-a3f5-ef19b5a7633b''),
           (''metadata'', JObj [(''limit_per_minute'', JNum 1), (''retry_after_seconds'', JNum 60)])]
          (initial_locals\<lparr>l_requestPayload := Some demo_payload, l_agentName := Some ''planner'',
                            l_intent := Some ''analyze''\<rparr>))
       busy_gateway"
  by (simp add: try_block_def demo_request_def agent_route_def remote_denied_def isLoopback_def
        readBody_def demo_body_small demo_world_fields demo_parse demo_validate demo_payload_props
        string_of_def agent_dispatch_def demo_planner intent_denied_def input_too_large_def
        agentLimit_def rate_check_def RateLimiter_check_def RateLimiter_prune_def busy_gateway_def
        error_reply_def Let_def)

lemma demo_served:
  "try_block demo_world demo_request initial_locals new_gateway =
     returns
       (send 200
          [(''status'', JStr ''ok''), (''provider'', JStr ''ollama''), (''output'', JStr ''hello''),
           (''request_id'', JStr ''1b4e28ba-2fa1-4d3b-a3f5-ef19b5a7633b''),
           (''metadata'', JObj [(''latency_ms'', JNum 10), (''fallback'', JBool False)])]
          (initial_locals\<lparr>l_requestPayload := Some demo_payload, l_agentName := Some ''planner'',
                            l_intent := Some ''analyze'', l_providerName := Some (JStr ''ollama''),
                            l_status := JStr ''ok'',
                            l_responsePayload := Some (JObj
          [(''status'', JStr ''ok''), (''provider'', JStr ''ollama''), (''output'', JStr ''hello''),
           (''request_id'', JStr ''1b4e28ba-2fa1-4d3b-a3f5-ef19b5a7633b''),
           (''metadata'', JObj [(''latency_ms'', JNum 10), (''fallback'', JBool False)])])\<rparr>))
       (new_gateway\<lparr>g_windows := [''planner'' \<mapsto> [60010]]\<rparr>)"
  by (simp add: try_block_def demo_request_def agent_route_def remote_denied_def isLoopback_def
        readBody_def demo_body_small demo_world_fields demo_parse demo_validate demo_payload_props
        string_of_def agent_dispatch_def demo_planner intent_denied_def input_too_large_def
        agentLimit_def rate_check_def RateLimiter_check_def RateLimiter_prune_def new_gateway_def
        agent_invoke_def pickProvider_def intent_route_def provider_denied_def
        invokeWithFallback_def try_chain_def getProvider_def lower_ollama chain_or_empty_def
        buildSystemPrompt_def obj_def List.map_filter_simps RateLimiter_record_def
        error_reply_def Let_def initial_locals_def)

text \<open>
  Witness for C8: a GET of an unknown path from a remote address gets the single 404
  error envelope, with the empty output that \<open>send\<close> adds.
\<close>

theorem handler_one_response_witness:
  "o_sent (handler demo_world lost_request new_gateway) =
     [(404, JObj [(''status'', JStr ''error''), (''error'', JStr ''Not found''),
                  (''request_id'', JStr ''1b4e28ba-2fa1-4d3b-a3f5-ef19b5a7633b''),
                  (''output'', JStr [])])]
   \<and> length (o_sent (handler demo_world lost_request new_gateway)) = 1"
  using handler_one_response [of demo_world lost_request new_gateway] demo_lost by simp

text \<open>
  Claim C2 says that an agent policy with \<open>rate_limit_per_minute\<close> set to 0 is never
  rate limited. The code at that input: \<open>planner\<close> sets the field to 0, the global
  default is 1 and one call of \<open>planner\<close> is in the window. The chain of \<open>||\<close>
  treats the 0 as absent, the global 1 becomes the limit, and the request is answered
  with 429.
\<close>

theorem agent_zero_limit_falls_to_global:
  "map_option rate_limit_per_minute (map_of (policy_agents demo_policy) ''planner'') = Some (Some 0)
   \<and> o_sent (handler demo_world demo_request busy_gateway) =
       [(429, JObj [(''status'', JStr ''error''), (''error'', JStr ''Rate limit exceeded''),
                    (''request_id'', JStr ''1b4e28ba-2fa1-4d3b-a3f5-ef19b5a7633b''),
                    (''metadata'', JObj [(''limit_per_minute'', JNum 1),
                                         (''retry_after_seconds'', JNum 60)]),
                    (''output'', JStr [])])]"
  unfolding handler_def demo_limited
  by (simp add: demo_planner returns_def send_def initial_locals_def Let_def split: prod.split)

text \<open>
  The \<open>finally\<close> block in general. With \<open>agentName\<close> null it cannot throw: it
  appends the access-log line, or leaves the log as it was when the write fails. With an
  agent name it throws before \<open>memory.record\<close> is called, whatever the world, and
  only the metrics have changed.
\<close>

lemma finally_block_without_agent:
  "l_agentName loc = None \<Longrightarrow>
   fst (finally_block w req loc st) = None
   \<and> journal (g_memory (snd (finally_block w req loc st))) = journal (g_memory st)
   \<and> (w_log_append_ok w \<longrightarrow>
        length (g_accessLog (snd (finally_block w req loc st))) = length (g_accessLog st) + 1)
   \<and> (\<not> w_log_append_ok w \<longrightarrow>
        g_accessLog (snd (finally_block w req loc st)) = g_accessLog st)"
  by (simp add: finally_block_def Let_def)

lemma finally_block_with_agent:
  "l_agentName loc = Some agent \<Longrightarrow> agent \<noteq> [] \<Longrightarrow>
   finally_block w req loc st =
     (Some ''startMs is not defined'',
      st\<lparr>g_metrics :=
           metrics_record w (l_agentName loc) (l_providerName loc) (l_status loc) (g_metrics st)\<rparr>)"
  by (simp add: finally_block_def read_variable_def number_variables_def Let_def)

text \<open>
  Claim C1 says that the \<open>finally\<close> block appends a journal record and an
  access-log line and lets no failure leave the handler. The code on a valid agent call
  served by \<open>ollama\<close>: the response is sent and the metrics are recorded, then the
  argument of \<open>memory.record\<close> reads the undeclared \<open>startMs\<close>, the
  ReferenceError leaves the handler, and neither the journal nor the access log has a
  new entry.
\<close>

theorem finally_block_throws_for_agent_calls:
  "o_sent (handler demo_world demo_request new_gateway) =
     [(200, JObj [(''status'', JStr ''ok''), (''provider'', JStr ''ollama''), (''output'', JStr ''hello''),
                  (''request_id'', JStr ''1b4e28ba-2fa1-4d3b-a3f5-ef19b5a7633b''),
                  (''metadata'', JObj [(''latency_ms'', JNum 10), (''fallback'', JBool False)])])]
   \<and> o_rejected (handler demo_world demo_request new_gateway) = Some ''startMs is not defined''
   \<and> totalRequests (g_metrics (o_state (handler demo_world demo_request new_gateway))) = 1
   \<and> journal (g_memory (o_state (handler demo_world demo_request new_gateway))) = []
   \<and> g_accessLog (o_state (handler demo_world demo_request new_gateway)) = []"
  unfolding handler_def demo_served
  by (simp add: returns_def send_def initial_locals_def finally_block_def
        read_variable_def number_variables_def metrics_record_def new_gateway_def Let_def
        split: prod.split)


section \<open>Metrics are recorded for every request\<close>






















lemma metrics_record_counts:
  "totalRequests (metrics_record w agent p s m) = totalRequests m + 1"
  "byAgent (metrics_record w agent p s m) = count_up w (agent_key agent) (byAgent m)"
  by (simp_all add: metrics_record_def Let_def split: option.split)

lemma map_of_count_up:
  "k \<noteq> ''__proto__'' \<Longrightarrow>
   map_of (count_up w k counts) k = Some (incremented w k (map_of counts k))"
  by (simp add: count_up_def update_conv')

lemma map_of_count_up_other:
  "k' \<noteq> k \<Longrightarrow> map_of (count_up w k counts) k' = map_of counts k'"
  by (simp add: count_up_def update_conv')

lemma count_up_proto:
  "map_of counts ''__proto__'' = None \<Longrightarrow> count_up w ''__proto__'' counts = counts"
  by (simp add: count_up_def)



lemma incremented_member:
  "k \<in> set object_prototype_names \<Longrightarrow>
   incremented w k None = Text (w_String w (JBuiltin k) @ ''1'')"
  by (simp add: incremented_def)







text \<open>
  The same assignment at a key that Object.prototype defines, for an agent name that
  passed \<open>validateRequest\<close>: the read finds the inherited member, which is truthy,
  and the sum is the text of the member followed by \<open>1\<close>; at \<open>__proto__\<close> the
  assignment stores nothing.
\<close>

lemma metrics_record_inherited_key:
  "byAgent (metrics_record w (Some ''__proto__'') p s (m\<lparr>byAgent := []\<rparr>)) = []"
  "map_of (byAgent (metrics_record w (Some ''constructor'') p s (m\<lparr>byAgent := []\<rparr>))) ''constructor''
     = Some (Text (w_String w (JBuiltin ''constructor'') @ ''1''))"
  by (simp_all add: metrics_record_counts agent_key_def count_up_proto map_of_count_up
        incremented_member object_prototype_names_def)

section \<open>Verify: what is parsed from the model output\<close>

lemma jsonMatch_shape:
  assumes "jsonMatch out = Some m"
  shows "\<exists>pre body suf. out = pre @ m @ suf \<and> m = CHR ''{'' # body @ [CHR ''}'']
           \<and> CHR ''{'' \<notin> set pre \<and> CHR ''}'' \<notin> set suf"
proof -
  let ?open = "\<lambda>c. c \<noteq> CHR ''{''" and ?close = "\<lambda>c. c \<noteq> CHR ''}''"
  define pre where "pre = takeWhile ?open out"
  define from_open where "from_open = dropWhile ?open out"
  define suf where "suf = rev (takeWhile ?close (rev from_open))"
  have m: "m = rev (dropWhile ?close (rev from_open))" and ne: "m \<noteq> []"
    using assms by (auto simp: jsonMatch_def from_open_def Let_def split: if_splits)
  have out: "out = pre @ from_open"
    by (simp add: pre_def from_open_def)
  have "rev (dropWhile ?close (rev from_open)) @ rev (takeWhile ?close (rev from_open)) =
          rev (takeWhile ?close (rev from_open) @ dropWhile ?close (rev from_open))"
    by (simp only: rev_append)
  also have "\<dots> = from_open"
    by (simp only: takeWhile_dropWhile_id rev_rev_ident)
  finally have fo: "from_open = m @ suf"
    by (simp add: m suf_def)
  have pre_no: "CHR ''{'' \<notin> set pre"
    unfolding pre_def by (auto dest: set_takeWhileD)
  have suf_no: "CHR ''}'' \<notin> set suf"
    unfolding suf_def by (auto dest: set_takeWhileD)
  have "from_open \<noteq> []" using fo ne by auto
  then have "hd from_open = CHR ''{''"
    unfolding from_open_def using hd_dropWhile [of ?open out] by auto
  then have hd_m: "hd m = CHR ''{''" using fo ne by (cases m) auto
  have "dropWhile ?close (rev from_open) \<noteq> []" using m ne by auto
  then have "hd (dropWhile ?close (rev from_open)) = CHR ''}''"
    using hd_dropWhile [of ?close "rev from_open"] by auto
  then have last_m: "last m = CHR ''}''"
    using m ne by (simp add: last_rev)
  obtain body where "m = CHR ''{'' # body @ [CHR ''}'']"
  proof (cases m)
    case Nil
    then show ?thesis using ne by simp
  next
    case (Cons c cs)
    then have c: "c = CHR ''{''" using hd_m by simp
    have "cs \<noteq> []" using Cons c last_m by auto
    then obtain body where "cs = body @ [last cs]"
      by (metis append_butlast_last_id)
    moreover have "last cs = CHR ''}''" using Cons last_m \<open>cs \<noteq> []\<close> by simp
    ultimately show ?thesis using that Cons c by simp
  qed
  then show ?thesis using out fo pre_no suf_no by auto
qed

lemma jsonMatch_complete:
  assumes "out = pre @ m @ suf" and "m = CHR ''{'' # body @ [CHR ''}'']"
    and "CHR ''{'' \<notin> set pre" and "CHR ''}'' \<notin> set suf"
  shows "jsonMatch out = Some m"
proof -
  let ?open = "\<lambda>c. c \<noteq> CHR ''{''" and ?close = "\<lambda>c. c \<noteq> CHR ''}''"
  have "dropWhile ?open (pre @ m @ suf) = dropWhile ?open (m @ suf)"
    using assms(3) by (intro dropWhile_append2) auto
  then have from_open: "dropWhile ?open out = m @ suf"
    by (simp add: assms(1,2))
  have "dropWhile ?close (rev suf @ rev m) = dropWhile ?close (rev m)"
    using assms(4) by (intro dropWhile_append2) auto
  then have "dropWhile ?close (rev (m @ suf)) = rev m"
    by (simp add: assms(2))
  then have matched: "rev (dropWhile ?close (rev (dropWhile ?open out))) = m"
    by (simp add: from_open)
  have "jsonMatch out = (if m = [] then None else Some m)"
    unfolding jsonMatch_def Let_def by (simp only: matched)
  moreover have "m \<noteq> []" by (simp add: assms(2))
  ultimately show ?thesis by simp
qed

lemma closing_brace_after_open:
  "CHR ''}'' \<in> set rest \<Longrightarrow>
   CHR ''}'' \<in> set (dropWhile (\<lambda>c. c \<noteq> CHR ''{'') (pre @ CHR ''{'' # rest))"
  by (induction pre) auto

lemma jsonMatch_found:
  "jsonMatch (pre @ CHR ''{'' # body @ CHR ''}'' # suf) \<noteq> None"
proof -
  have "CHR ''}'' \<in> set (dropWhile (\<lambda>c. c \<noteq> CHR ''{'') (pre @ CHR ''{'' # (body @ CHR ''}'' # suf)))"
    by (rule closing_brace_after_open) simp
  then have "dropWhile (\<lambda>c. c \<noteq> CHR ''}'')
               (rev (dropWhile (\<lambda>c. c \<noteq> CHR ''{'') (pre @ CHR ''{'' # body @ CHR ''}'' # suf))) \<noteq> []"
    by (auto simp: dropWhile_eq_Nil_conv)
  then show ?thesis
    by (simp add: jsonMatch_def Let_def)
qed

lemma jsonMatch_none:
  "jsonMatch out = None \<longleftrightarrow> \<not> (\<exists>pre body suf. out = pre @ CHR ''{'' # body @ CHR ''}'' # suf)"
proof
  assume "jsonMatch out = None"
  then show "\<not> (\<exists>pre body suf. out = pre @ CHR ''{'' # body @ CHR ''}'' # suf)"
    using jsonMatch_found by blast
next
  assume none: "\<not> (\<exists>pre body suf. out = pre @ CHR ''{'' # body @ CHR ''}'' # suf)"
  show "jsonMatch out = None"
  proof (rule ccontr)
    assume "jsonMatch out \<noteq> None"
    then obtain m where "jsonMatch out = Some m" by auto
    from jsonMatch_shape [OF this] obtain pre body suf
      where "out = pre @ m @ suf" "m = CHR ''{'' # body @ [CHR ''}'']" by blast
    then have "out = pre @ CHR ''{'' # body @ CHR ''}'' # suf" by simp
    with none show False by blast
  qed
qed

lemma parse_defaults:
  "jsonMatch out = None \<or> (\<exists>m. jsonMatch out = Some m \<and> w_JSON_parse w m = None) \<Longrightarrow>
   parse_model_output w out = verdict_defaults out"
  by (auto simp: parse_model_output_def)

lemma parse_confidence_range:
  "0 \<le> v_confidence (parse_model_output w out) \<and> v_confidence (parse_model_output w out) \<le> 1"
  by (simp add: parse_model_output_def verdict_defaults_def split: option.split json.split)

lemma parse_confidence_clamped:
  "jsonMatch out = Some m \<Longrightarrow> w_JSON_parse w m = Some parsed \<Longrightarrow>
   getprop parsed ''confidence'' = Some (JNum c) \<Longrightarrow>
   v_confidence (parse_model_output w out) = min 1 (max 0 c)"
  by (cases parsed) (simp_all add: parse_model_output_def)

lemma parse_confidence_default:
  "jsonMatch out = Some m \<Longrightarrow> w_JSON_parse w m = Some parsed \<Longrightarrow>
   \<forall>c. getprop parsed ''confidence'' \<noteq> Some (JNum c) \<Longrightarrow>
   v_confidence (parse_model_output w out) = 1 / 2"
  by (cases parsed)
     (auto simp: parse_model_output_def verdict_defaults_def split: option.split json.split)

lemma parse_reasoning:
  "jsonMatch out = Some m \<Longrightarrow> w_JSON_parse w m = Some parsed \<Longrightarrow>
   v_reasoning (parse_model_output w out) =
     (case getprop parsed ''reasoning'' of Some (JStr r) \<Rightarrow> r | _ \<Rightarrow> out)"
  by (cases parsed) (simp_all add: parse_model_output_def verdict_defaults_def)

lemma parse_flags:
  "jsonMatch out = Some m \<Longrightarrow> w_JSON_parse w m = Some parsed \<Longrightarrow>
   v_flags (parse_model_output w out) =
     (case getprop parsed ''flags'' of Some (JArr fs) \<Rightarrow> fs | _ \<Rightarrow> [])"
  by (cases parsed) (simp_all add: parse_model_output_def verdict_defaults_def)

lemma verify_respond_payload:
  "\<exists>st'. verify_respond w agentName intent sources result loc st =
     (None,
      send 200
        (obj [(''status'', Some (JStr ''ok'')),
              (''verdict'', Some (JStr (v_verdict (parse_model_output w (result_output result))))),
              (''confidence'', Some (JNum (v_confidence (parse_model_output w (result_output result))))),
              (''reasoning'', Some (JStr (v_reasoning (parse_model_output w (result_output result))))),
              (''agent_used'', Some (JStr agentName)),
              (''sources_checked'', sources_checked sources),
              (''flags'', Some (JArr (v_flags (parse_model_output w (result_output result))))),
              (''timestamp'', Some (JStr (w_timestamp w)))]) loc,
      st')"
  by (simp add: verify_respond_def returns_def Let_def split: prod.split)

lemma parse_verdict_known:
  "v_verdict (parse_model_output w out) \<in> {''true'', ''false'', ''unverified'', ''conflicting''}"
  by (simp add: parse_model_output_def verdict_defaults_def split: option.split json.split)

lemma parse_verdict_collapses:
  "jsonMatch out = Some m \<Longrightarrow> w_JSON_parse w m = Some parsed \<Longrightarrow>
   getprop parsed ''verdict'' \<notin> Some ` JStr ` {''true'', ''false'', ''unverified'', ''conflicting''} \<Longrightarrow>
   v_verdict (parse_model_output w out) = ''unverified''"
  by (cases parsed) (auto simp: parse_model_output_def verdict_defaults_def split: option.split json.split)

lemma parse_verdict_kept:
  "jsonMatch out = Some m \<Longrightarrow> w_JSON_parse w m = Some parsed \<Longrightarrow>
   getprop parsed ''verdict'' = Some (JStr v) \<Longrightarrow>
   v \<in> {''true'', ''false'', ''unverified'', ''conflicting''} \<Longrightarrow>
   v_verdict (parse_model_output w out) = v"
  by (cases parsed) (auto simp: parse_model_output_def)

lemma demo_reply_match:
  "jsonMatch demo_reply = Some demo_reply"
  "first_balanced_spec demo_reply = Some demo_reply_object"
  by (simp_all add: jsonMatch_def first_balanced_spec_def demo_reply_def demo_reply_object_def quoted_def)

lemma demo_parse_reply: "parse_model_output demo_world demo_reply = verdict_defaults demo_reply"
  by (simp add: parse_model_output_def demo_reply_match demo_parse)

lemma demo_not_security: "\<not> isSecurityClaim ''the sky is green''"
  by (simp add: isSecurityClaim_def toLowerCase_def lower_char_def)

lemma demo_trim: "trim ''the sky is green'' = ''the sky is green''"
  by (simp add: trim_def is_space_def)

lemma demo_prism:
  "map_of (policy_agents demo_policy) ''prism'' =
     Some \<lparr>description = None, allowed_intents = Some [''correlate''],
           allowed_providers = Some [''ollama''], default_provider = Some ''ollama'',
           intent_routes = None, fallback_chain = Some [],
           max_input_bytes = Some 1048576, rate_limit_per_minute = None\<rparr>"
  by (simp add: demo_policy_def policy_agents_def)

lemma demo_verify_claim:
  "verify_claim demo_world ''the sky is green'' (JArr []) (JNum (7 / 10)) loc st =
     Inr (verify_respond demo_world ''prism'' ''analyze'' (JArr [])
            \<lparr>result_output = demo_reply, result_provider = Some (JStr ''ollama''),
             result_fallback = False\<rparr> loc st)"
  by (simp add: verify_claim_def demo_not_security demo_world_fields demo_planner demo_prism
        pickProvider_def intent_route_def sourcesLine_def js_length_def gt_zero_def
        invokeWithFallback_def try_chain_def getProvider_def lower_ollama chain_or_empty_def Let_def)

lemma demo_verify_respond:
  "\<exists>st'. verify_respond demo_world ''prism'' ''analyze'' (JArr [])
            \<lparr>result_output = demo_reply, result_provider = Some (JStr ''ollama''),
             result_fallback = False\<rparr> loc st =
   (None,
    send 200
     [(''status'', JStr ''ok''), (''verdict'', JStr ''unverified''), (''confidence'', JNum (1 / 2)),
      (''reasoning'', JStr demo_reply), (''agent_used'', JStr ''prism''),
      (''sources_checked'', JNum 0), (''flags'', JArr []),
      (''timestamp'', JStr ''2026-01-01T00:01:00.000Z'')] loc,
    st')"
  by (simp add: verify_respond_def demo_parse_reply verdict_defaults_def sources_checked_def
        js_length_def obj_def List.map_filter_simps demo_world_fields returns_def Let_def
        split: prod.split)

lemma demo_verify_try:
  "verify_try demo_world verify_request loc st =
     Inr (verify_respond demo_world ''prism'' ''analyze'' (JArr [])
            \<lparr>result_output = demo_reply, result_provider = Some (JStr ''ollama''),
             result_fallback = False\<rparr> loc st)"
  by (simp add: verify_try_def verify_request_def readBody_def demo_body_small demo_parse
        default_to_def string_of_def demo_trim demo_verify_claim Let_def)

lemma handler_sent:
  "try_block w req initial_locals st = (None, loc1, st1) \<Longrightarrow> o_sent (handler w req st) = l_sent loc1"
  by (simp add: handler_def Let_def split: prod.split)

lemma demo_verified:
  "o_sent (handler demo_world verify_request new_gateway) =
     [(200, JObj [(''status'', JStr ''ok''), (''verdict'', JStr ''unverified''),
                  (''confidence'', JNum (1 / 2)), (''reasoning'', JStr demo_reply),
                  (''agent_used'', JStr ''prism''), (''sources_checked'', JNum 0),
                  (''flags'', JArr []), (''timestamp'', JStr ''2026-01-01T00:01:00.000Z'')])]"
proof -
  have route: "try_block demo_world verify_request initial_locals new_gateway =
          verify_respond demo_world ''prism'' ''analyze'' (JArr [])
            \<lparr>result_output = demo_reply, result_provider = Some (JStr ''ollama''),
             result_fallback = False\<rparr> initial_locals new_gateway"
    by (simp add: try_block_def verify_route_def demo_verify_try)
       (simp add: verify_request_def)
  obtain st' where "try_block demo_world verify_request initial_locals new_gateway =
      (None,
       send 200
        [(''status'', JStr ''ok''), (''verdict'', JStr ''unverified''), (''confidence'', JNum (1 / 2)),
         (''reasoning'', JStr demo_reply), (''agent_used'', JStr ''prism''),
         (''sources_checked'', JNum 0), (''flags'', JArr []),
         (''timestamp'', JStr ''2026-01-01T00:01:00.000Z'')] initial_locals,
       st')"
    unfolding route using demo_verify_respond [of initial_locals new_gateway] by blast
  from handler_sent [OF this] show ?thesis
    by (simp add: send_def initial_locals_def Let_def)
qed

text \<open>
  Claim C7, as the code has it. The text handed to \<open>JSON.parse\<close> is the match of the
  regular expression: there is a match exactly when some opening brace of the model
  output has a closing brace after it, and the match is then the text that starts at the
  first opening brace and ends at the last closing brace, with no brace counting. When
  there is no match or the match does not parse, the result is verdict \<open>unverified\<close>,
  confidence 0.5, the raw output as reasoning and no flags. In every case the
  confidence lies in [0,1]: a parsed numeric confidence is clamped and a parsed value
  without a numeric confidence gets 0.5. In every case the verdict is one of the four
  known ones: a parsed verdict among them is kept and any other becomes
  \<open>unverified\<close>. A parsed value gives its \<open>reasoning\<close> when that is a string, and
  the raw output otherwise; its \<open>flags\<close> when that is an array, and none otherwise.
  The 200 response of the endpoint carries these four values.
\<close>

theorem parse_model_output_behaviour:
  "(\<forall>m. jsonMatch out = Some m \<longleftrightarrow>
      (\<exists>pre body suf. out = pre @ m @ suf \<and> m = CHR ''{'' # body @ [CHR ''}'']
          \<and> CHR ''{'' \<notin> set pre \<and> CHR ''}'' \<notin> set suf))
   \<and> (jsonMatch out = None \<longleftrightarrow>
        \<not> (\<exists>pre body suf. out = pre @ CHR ''{'' # body @ CHR ''}'' # suf))
   \<and> (jsonMatch out = None \<or> (\<exists>m. jsonMatch out = Some m \<and> w_JSON_parse w m = None) \<longrightarrow>
        parse_model_output w out =
          \<lparr>v_verdict = ''unverified'', v_confidence = 1 / 2, v_reasoning = out, v_flags = []\<rparr>)
   \<and> 0 \<le> v_confidence (parse_model_output w out)
   \<and> v_confidence (parse_model_output w out) \<le> 1
   \<and> (\<forall>m parsed c. jsonMatch out = Some m \<and> w_JSON_parse w m = Some parsed
          \<and> getprop parsed ''confidence'' = Some (JNum c) \<longrightarrow>
        v_confidence (parse_model_output w out) = min 1 (max 0 c))
   \<and> (\<forall>m parsed. jsonMatch out = Some m \<and> w_JSON_parse w m = Some parsed
          \<and> (\<forall>c. getprop parsed ''confidence'' \<noteq> Some (JNum c)) \<longrightarrow>
        v_confidence (parse_model_output w out) = 1 / 2)
   \<and> v_verdict (parse_model_output w out) \<in> {''true'', ''false'', ''unverified'', ''conflicting''}
   \<and> (\<forall>m parsed. jsonMatch out = Some m \<and> w_JSON_parse w m = Some parsed
          \<and> getprop parsed ''verdict'' \<notin> Some ` JStr ` {''true'', ''false'', ''unverified'', ''conflicting''} \<longrightarrow>
        v_verdict (parse_model_output w out) = ''unverified'')
   \<and> (\<forall>m parsed v. jsonMatch out = Some m \<and> w_JSON_parse w m = Some parsed
          \<and> getprop parsed ''verdict'' = Some (JStr v)
          \<and> v \<in> {''true'', ''false'', ''unverified'', ''conflicting''} \<longrightarrow>
        v_verdict (parse_model_output w out) = v)
   \<and> (\<forall>m parsed. jsonMatch out = Some m \<and> w_JSON_parse w m = Some parsed \<longrightarrow>
        v_reasoning (parse_model_output w out) =
          (case getprop parsed ''reasoning'' of Some (JStr r) \<Rightarrow> r | _ \<Rightarrow> out)
        \<and> v_flags (parse_model_output w out) =
          (case getprop parsed ''flags'' of Some (JArr fs) \<Rightarrow> fs | _ \<Rightarrow> []))
   \<and> (\<exists>st'. verify_respond w agentName intent sources (result\<lparr>result_output := out\<rparr>) loc st =
           (None,
            send 200
              (obj [(''status'', Some (JStr ''ok'')),
                    (''verdict'', Some (JStr (v_verdict (parse_model_output w out)))),
                    (''confidence'', Some (JNum (v_confidence (parse_model_output w out)))),
                    (''reasoning'', Some (JStr (v_reasoning (parse_model_output w out)))),
                    (''agent_used'', Some (JStr agentName)),
                    (''sources_checked'', sources_checked sources),
                    (''flags'', Some (JArr (v_flags (parse_model_output w out)))),
                    (''timestamp'', Some (JStr (w_timestamp w)))]) loc,
            st'))"
proof -
  have shape: "\<forall>m. jsonMatch out = Some m \<longleftrightarrow>
      (\<exists>pre body suf. out = pre @ m @ suf \<and> m = CHR ''{'' # body @ [CHR ''}'']
          \<and> CHR ''{'' \<notin> set pre \<and> CHR ''}'' \<notin> set suf)"
    using jsonMatch_shape jsonMatch_complete by blast
  have dflt: "jsonMatch out = None \<or> (\<exists>m. jsonMatch out = Some m \<and> w_JSON_parse w m = None) \<longrightarrow>
        parse_model_output w out =
          \<lparr>v_verdict = ''unverified'', v_confidence = 1 / 2, v_reasoning = out, v_flags = []\<rparr>"
    using parse_defaults [of out w] by (simp add: verdict_defaults_def)
  have low: "0 \<le> v_confidence (parse_model_output w out)"
    and high: "v_confidence (parse_model_output w out) \<le> 1"
    using parse_confidence_range [of w out] by simp_all
  have clamp: "\<forall>m parsed c. jsonMatch out = Some m \<and> w_JSON_parse w m = Some parsed
          \<and> getprop parsed ''confidence'' = Some (JNum c) \<longrightarrow>
        v_confidence (parse_model_output w out) = min 1 (max 0 c)"
    using parse_confidence_clamped by blast
  have half: "\<forall>m parsed. jsonMatch out = Some m \<and> w_JSON_parse w m = Some parsed
          \<and> (\<forall>c. getprop parsed ''confidence'' \<noteq> Some (JNum c)) \<longrightarrow>
        v_confidence (parse_model_output w out) = 1 / 2"
    using parse_confidence_default by blast
  have collapse: "\<forall>m parsed. jsonMatch out = Some m \<and> w_JSON_parse w m = Some parsed
          \<and> getprop parsed ''verdict'' \<notin> Some ` JStr ` {''true'', ''false'', ''unverified'', ''conflicting''} \<longrightarrow>
        v_verdict (parse_model_output w out) = ''unverified''"
    using parse_verdict_collapses by blast
  have kept: "\<forall>m parsed v. jsonMatch out = Some m \<and> w_JSON_parse w m = Some parsed
          \<and> getprop parsed ''verdict'' = Some (JStr v)
          \<and> v \<in> {''true'', ''false'', ''unverified'', ''conflicting''} \<longrightarrow>
        v_verdict (parse_model_output w out) = v"
    using parse_verdict_kept by blast
  have rest: "\<forall>m parsed. jsonMatch out = Some m \<and> w_JSON_parse w m = Some parsed \<longrightarrow>
        v_reasoning (parse_model_output w out) =
          (case getprop parsed ''reasoning'' of Some (JStr r) \<Rightarrow> r | _ \<Rightarrow> out)
        \<and> v_flags (parse_model_output w out) =
          (case getprop parsed ''flags'' of Some (JArr fs) \<Rightarrow> fs | _ \<Rightarrow> [])"
    using parse_reasoning parse_flags by blast
  have sent: "(\<exists>st'. verify_respond w agentName intent sources (result\<lparr>result_output := out\<rparr>) loc st =
           (None,
            send 200
              (obj [(''status'', Some (JStr ''ok'')),
                    (''verdict'', Some (JStr (v_verdict (parse_model_output w out)))),
                    (''confidence'', Some (JNum (v_confidence (parse_model_output w out)))),
                    (''reasoning'', Some (JStr (v_reasoning (parse_model_output w out)))),
                    (''agent_used'', Some (JStr agentName)),
                    (''sources_checked'', sources_checked sources),
                    (''flags'', Some (JArr (v_flags (parse_model_output w out)))),
                    (''timestamp'', Some (JStr (w_timestamp w)))]) loc,
            st'))"
    using verify_respond_payload [of w agentName intent sources "result\<lparr>result_output := out\<rparr>" loc st]
    by simp
  show ?thesis
    by (intro conjI)
       (rule shape jsonMatch_none dflt low high clamp half parse_verdict_known collapse kept rest sent)+
qed

text \<open>
  Witness for C7: an output without braces gives the defaults; the match in
  \<open>a{b}c\<close> is \<open>{b}\<close>; an output that is one JSON object gives its verdict; a
  parsed confidence of 3/2 is clamped to 1 and the unknown verdict \<open>maybe\<close> becomes
  \<open>unverified\<close>; a parsed confidence that is a string becomes 0.5.
\<close>

theorem parse_model_output_behaviour_witness:
  "parse_model_output demo_world ''hello'' =
     \<lparr>v_verdict = ''unverified'', v_confidence = 1 / 2, v_reasoning = ''hello'', v_flags = []\<rparr>
   \<and> jsonMatch ''a{b}c'' = Some ''{b}''
   \<and> v_verdict (parse_model_output demo_world demo_reply_object) = ''false''
   \<and> v_confidence (parse_model_output
         (demo_world\<lparr>w_JSON_parse :=
            \<lambda>s. Some (JObj [(''verdict'', JStr ''maybe''), (''confidence'', JNum (3 / 2))])\<rparr>)
         ''{}'') = 1
   \<and> v_verdict (parse_model_output
         (demo_world\<lparr>w_JSON_parse :=
            \<lambda>s. Some (JObj [(''verdict'', JStr ''maybe''), (''confidence'', JNum (3 / 2))])\<rparr>)
         ''{}'') = ''unverified''
   \<and> v_confidence (parse_model_output
         (demo_world\<lparr>w_JSON_parse := \<lambda>s. Some (JObj [(''confidence'', JStr ''high'')])\<rparr>)
         ''{}'') = 1 / 2"
proof -
  let ?parsed = "JObj [(''verdict'', JStr ''maybe''), (''confidence'', JNum (3 / 2))]"
  let ?w = "demo_world\<lparr>w_JSON_parse := \<lambda>s. Some ?parsed\<rparr>"
  let ?vague = "JObj [(''confidence'', JStr ''high'')]"
  let ?w' = "demo_world\<lparr>w_JSON_parse := \<lambda>s. Some ?vague\<rparr>"
  note hello = parse_model_output_behaviour [where out = "''hello''" and w = demo_world]
  note abc = parse_model_output_behaviour [where out = "''a{b}c''" and w = demo_world]
  note reply = parse_model_output_behaviour [where out = demo_reply_object and w = demo_world]
  note maybe = parse_model_output_behaviour [where out = "''{}''" and w = ?w]
  note vague = parse_model_output_behaviour [where out = "''{}''" and w = ?w']
  have "\<not> (\<exists>pre body suf. ''hello'' = pre @ CHR ''{'' # body @ CHR ''}'' # suf)"
  proof
    assume "\<exists>pre body suf. ''hello'' = pre @ CHR ''{'' # body @ CHR ''}'' # suf"
    then obtain pre body suf where "''hello'' = pre @ CHR ''{'' # body @ CHR ''}'' # suf" by blast
    then have "CHR ''{'' \<in> set ''hello''" by (metis in_set_conv_decomp)
    then show False by simp
  qed
  then have m1: "jsonMatch ''hello'' = None"
    using hello [THEN conjunct2, THEN conjunct1] by blast
  have c1: "parse_model_output demo_world ''hello'' =
     \<lparr>v_verdict = ''unverified'', v_confidence = 1 / 2, v_reasoning = ''hello'', v_flags = []\<rparr>"
    using hello [THEN conjunct2, THEN conjunct2, THEN conjunct1] m1 by blast
  have "''a{b}c'' = ''a'' @ ''{b}'' @ ''c'' \<and> ''{b}'' = CHR ''{'' # ''b'' @ [CHR ''}'']
          \<and> CHR ''{'' \<notin> set ''a'' \<and> CHR ''}'' \<notin> set ''c''"
    by simp
  then have c2: "jsonMatch ''a{b}c'' = Some ''{b}''"
    using abc [THEN conjunct1] by blast
  have m2: "jsonMatch demo_reply_object = Some demo_reply_object"
    by (simp add: jsonMatch_def demo_reply_object_def quoted_def)
  have g2: "getprop (JObj [(''verdict'', JStr ''false'')]) ''verdict'' = Some (JStr ''false'')"
    "''false'' \<in> {''true'', ''false'', ''unverified'', ''conflicting''}"
    by simp_all
  have c3: "v_verdict (parse_model_output demo_world demo_reply_object) = ''false''"
    using reply [THEN conjunct2, THEN conjunct2, THEN conjunct2, THEN conjunct2, THEN conjunct2,
                 THEN conjunct2, THEN conjunct2, THEN conjunct2, THEN conjunct2, THEN conjunct1]
      m2 demo_parse(3) g2
    by blast
  have m3: "jsonMatch ''{}'' = Some ''{}''"
    by (simp add: jsonMatch_def)
  have p3: "w_JSON_parse ?w ''{}'' = Some ?parsed"
    by simp
  have g3: "getprop ?parsed ''confidence'' = Some (JNum (3 / 2))"
    "getprop ?parsed ''verdict'' \<notin> Some ` JStr ` {''true'', ''false'', ''unverified'', ''conflicting''}"
    by auto
  have c4: "v_confidence (parse_model_output ?w ''{}'') = min 1 (max 0 (3 / 2))"
    using maybe [THEN conjunct2, THEN conjunct2, THEN conjunct2, THEN conjunct2, THEN conjunct2,
                 THEN conjunct1]
      m3 p3 g3(1)
    by blast
  have c5: "v_verdict (parse_model_output ?w ''{}'') = ''unverified''"
    using maybe [THEN conjunct2, THEN conjunct2, THEN conjunct2, THEN conjunct2, THEN conjunct2,
                 THEN conjunct2, THEN conjunct2, THEN conjunct2, THEN conjunct1]
      m3 p3 g3(2)
    by blast
  have p4: "w_JSON_parse ?w' ''{}'' = Some ?vague"
    by simp
  have g4: "\<forall>c. getprop ?vague ''confidence'' \<noteq> Some (JNum c)"
    by simp
  have c6: "v_confidence (parse_model_output ?w' ''{}'') = 1 / 2"
    using vague [THEN conjunct2, THEN conjunct2, THEN conjunct2, THEN conjunct2, THEN conjunct2,
                 THEN conjunct2, THEN conjunct1]
      m3 p4 g4
    by blast
  show ?thesis using c1 c2 c3 c4 c5 c6 by simp
qed

text \<open>
  The claim as the specification words it fails. The model answers with a JSON object
  followed by a second pair of braces. The first balanced substring is the object, which
  parses and says \<open>false\<close>; the code hands both pairs of braces to \<open>JSON.parse\<close>
  as one text, which does not parse, and the endpoint answers \<open>unverified\<close> with the
  raw output as reasoning.
\<close>

theorem verify_match_is_not_balanced:
  "first_balanced_spec demo_reply = Some demo_reply_object
   \<and> w_JSON_parse demo_world demo_reply_object = Some (JObj [(''verdict'', JStr ''false'')])
   \<and> jsonMatch demo_reply = Some demo_reply
   \<and> w_JSON_parse demo_world demo_reply = None
   \<and> o_sent (handler demo_world verify_request new_gateway) =
       [(200, JObj [(''status'', JStr ''ok''), (''verdict'', JStr ''unverified''),
                    (''confidence'', JNum (1 / 2)), (''reasoning'', JStr demo_reply),
                    (''agent_used'', JStr ''prism''), (''sources_checked'', JNum 0),
                    (''flags'', JArr []), (''timestamp'', JStr ''2026-01-01T00:01:00.000Z'')])]"
  by (simp add: demo_reply_match demo_parse demo_verified)


section \<open>Verify: no loopback gate, no rate limit, no intent check\<close>

lemma returns_within:
  "l_sent loc = before \<Longrightarrow> code \<in> codes \<Longrightarrow> g_windows st = ws \<Longrightarrow>
   answers_within codes before ws (returns (send code p0 loc) st)"
  by (simp add: answers_within_def returns_def send_def Let_def)

lemma tried_within_simps:
  "tried_within codes before ws (Inl e)"
  "tried_within codes before ws (Inr r) = answers_within codes before ws r"
  by (simp_all add: tried_within_def)

lemmas within_simps = returns_within tried_within_simps Let_def

lemma verify_respond_within:
  "l_sent loc = before \<Longrightarrow> g_windows st = ws \<Longrightarrow>
   answers_within {200, 400, 502, 503} before ws (verify_respond w a i sources result loc st)"
  by (simp add: verify_respond_def within_simps split: prod.split)

lemma verify_claim_within:
  "l_sent loc = before \<Longrightarrow> g_windows st = ws \<Longrightarrow>
   tried_within {200, 400, 502, 503} before ws (verify_claim w claim sources threshold loc st)"
  by (simp add: verify_claim_def verify_respond_within within_simps split: sum.split option.split)

lemma verify_try_within:
  "l_sent loc = before \<Longrightarrow> g_windows st = ws \<Longrightarrow>
   tried_within {200, 400, 502, 503} before ws (verify_try w req loc st)"
  by (simp add: verify_try_def verify_claim_within within_simps split: sum.split option.split)

lemma verify_within:
  "l_sent loc = before \<Longrightarrow> g_windows st = ws \<Longrightarrow>
   answers_within {200, 400, 502, 503} before ws (verify_route w req loc st)"
  using verify_try_within [of loc before st ws w req]
  by (auto simp: verify_route_def tried_within_def within_simps split: sum.splits)

lemma finally_block_windows: "g_windows (snd (finally_block w req loc st)) = g_windows st"
  by (simp add: finally_block_def Let_def split: option.split sum.split)

text \<open>Independence of the world fields and inputs the verify route does not read.\<close>

lemma loadPolicy_with_allowed_intents:
  "loadPolicy (policyFile_with_allowed_intents f file) =
     (case loadPolicy file of Inl e \<Rightarrow> Inl e | Inr p \<Rightarrow> Inr (with_allowed_intents f p))"
  by (simp add: loadPolicy_def policyFile_with_allowed_intents_def with_allowed_intents_def
        split: sum.split option.split)

lemma map_of_with_allowed_intents:
  "map_of (map (\<lambda>(name, cfg). (name, cfg\<lparr>allowed_intents := f name\<rparr>)) as) a =
     map_option (\<lambda>cfg. cfg\<lparr>allowed_intents := f a\<rparr>) (map_of as a)"
  by (induction as) auto

lemma policy_agents_with_allowed_intents:
  "map_of (policy_agents (with_allowed_intents f p)) a =
     map_option (\<lambda>cfg. cfg\<lparr>allowed_intents := f a\<rparr>) (map_of (policy_agents p) a)"
  by (cases "agents p")
     (simp_all add: policy_agents_def with_allowed_intents_def map_of_with_allowed_intents)

lemma ignores_allowed_intents:
  "pickProvider r (cfg\<lparr>allowed_intents := x\<rparr>) i = pickProvider r cfg i"
  "chain_or_empty (cfg\<lparr>allowed_intents := x\<rparr>) = chain_or_empty cfg"
  by (simp_all add: pickProvider_def intent_route_def chain_or_empty_def)

lemma ignores_gate:
  "sourcesLine (w\<lparr>w_allowRemote := b, w_policyFile := pf\<rparr>) = sourcesLine w"
  "template_string (w\<lparr>w_allowRemote := b, w_policyFile := pf\<rparr>) = template_string w"
  "buildSystemPrompt (w\<lparr>w_allowRemote := b, w_policyFile := pf\<rparr>) = buildSystemPrompt w"
  "parse_model_output (w\<lparr>w_allowRemote := b, w_policyFile := pf\<rparr>) = parse_model_output w"
  "memory_record (w\<lparr>w_allowRemote := b, w_policyFile := pf\<rparr>) = memory_record w"
  "catch_block (w\<lparr>w_allowRemote := b, w_policyFile := pf\<rparr>) = catch_block w"
  by (simp_all add: fun_eq_iff sourcesLine_def gt_zero_def array_join_def template_string_def
        buildSystemPrompt_def parse_model_output_def memory_record_def memory_init_def
        key_string_def catch_block_def error_reply_def Let_def
        cong: json.case_cong option.case_cong sum.case_cong if_cong)

lemma run_reply_returns: "run_reply (returns loc st) = (None, loc)"
  by (simp add: run_reply_def returns_def)

lemma tried_reply_simps:
  "tried_reply (Inl e) = Inl e" "tried_reply (Inr r) = Inr (run_reply r)"
  by (simp_all add: tried_reply_def)

lemma verify_respond_indep:
  "run_reply (verify_respond (w\<lparr>w_allowRemote := b, w_policyFile := pf\<rparr>) a i sources result loc
                (st\<lparr>g_windows := ws\<rparr>))
     = run_reply (verify_respond w a i sources result loc st)"
  by (simp add: verify_respond_def ignores_gate run_reply_returns Let_def split: prod.split)

lemma verify_claim_indep:
  "tried_reply (verify_claim (w\<lparr>w_allowRemote := b,
                                w_policyFile := policyFile_with_allowed_intents f (w_policyFile w)\<rparr>)
                  claim sources threshold loc (st\<lparr>g_windows := ws\<rparr>))
     = tried_reply (verify_claim w claim sources threshold loc st)"
  by (simp add: verify_claim_def loadPolicy_with_allowed_intents policy_agents_with_allowed_intents
        ignores_allowed_intents ignores_gate verify_respond_indep tried_reply_simps
        run_reply_returns Let_def split: sum.split option.split)

lemma verify_try_indep:
  "tried_reply (verify_try (w\<lparr>w_allowRemote := b,
                              w_policyFile := policyFile_with_allowed_intents f (w_policyFile w)\<rparr>)
                  (req\<lparr>req_remoteAddress := a\<rparr>) loc (st\<lparr>g_windows := ws\<rparr>))
     = tried_reply (verify_try w req loc st)"
  by (simp add: verify_try_def readBody_def verify_claim_indep tried_reply_simps
        run_reply_returns Let_def split: sum.split option.split)

lemma verify_route_indep:
  "run_reply (verify_route (w\<lparr>w_allowRemote := b,
                              w_policyFile := policyFile_with_allowed_intents f (w_policyFile w)\<rparr>)
                  (req\<lparr>req_remoteAddress := a\<rparr>) loc (st\<lparr>g_windows := ws\<rparr>))
     = run_reply (verify_route w req loc st)"
  using verify_try_indep [where w = w and b = b and f = f and req = req and a = a and loc = loc
                            and st = st and ws = ws]
  by (auto simp: verify_route_def tried_reply_def run_reply_returns split: sum.splits)

lemma handler_reply:
  "o_sent (handler w req st) =
     l_sent (case run_reply (try_block w req initial_locals st) of
               (None, loc) \<Rightarrow> loc
             | (Some e, loc) \<Rightarrow> catch_block w e loc)"
  by (simp add: handler_def run_reply_def Let_def split: prod.split option.split)

lemma handler_windows:
  "g_windows (o_state (handler w req st)) = g_windows (snd (snd (try_block w req initial_locals st)))"
proof -
  obtain thrown loc1 st1 where run: "try_block w req initial_locals st = (thrown, loc1, st1)"
    by (cases "try_block w req initial_locals st") auto
  define loc2 where "loc2 = (case thrown of None \<Rightarrow> loc1 | Some error \<Rightarrow> catch_block w error loc1)"
  have "o_state (handler w req st) = snd (finally_block w req loc2 st1)"
    by (simp add: handler_def run loc2_def Let_def split: prod.split)
  then show ?thesis
    by (simp add: finally_block_windows run)
qed

text \<open>
  Claim C9. A POST to the verify endpoint is answered in the same way whatever the
  remote address of the client, the \<open>allowRemote\<close> setting, the state of the rate
  limiter and the allowed intents of the agents in the policy. Its status code is 200,
  400, 502 or 503, so never the 403 of the loopback gate, and the run leaves the windows
  of the rate limiter as they were.
\<close>

theorem verify_ignores_gate_and_limits:
  assumes "req_method req = ''POST''" and "req_url req = ''/v1/verify''"
  shows "o_sent (handler (w\<lparr>w_allowRemote := b,
                            w_policyFile := policyFile_with_allowed_intents f (w_policyFile w)\<rparr>)
                   (req\<lparr>req_remoteAddress := a\<rparr>) (st\<lparr>g_windows := ws\<rparr>))
           = o_sent (handler w req st)
       \<and> (\<forall>(code, p) \<in> set (o_sent (handler w req st)). code \<in> {200, 400, 502, 503})
       \<and> g_windows (o_state (handler w req st)) = g_windows st"
proof -
  let ?w = "w\<lparr>w_allowRemote := b, w_policyFile := policyFile_with_allowed_intents f (w_policyFile w)\<rparr>"
  have route: "try_block w req loc s = verify_route w req loc s" for w loc s
    using assms by (simp add: try_block_def)
  have route': "try_block ?w (req\<lparr>req_remoteAddress := a\<rparr>) loc s
                  = verify_route ?w (req\<lparr>req_remoteAddress := a\<rparr>) loc s" for loc s
    using assms by (simp add: try_block_def)
  have same: "o_sent (handler ?w (req\<lparr>req_remoteAddress := a\<rparr>) (st\<lparr>g_windows := ws\<rparr>))
                = o_sent (handler w req st)"
    by (simp only: handler_reply route route' verify_route_indep ignores_gate)
  have "l_sent initial_locals = []" by (simp add: initial_locals_def)
  from verify_within [OF this refl, where st = st and w = w and req = req]
  have within: "answers_within {200, 400, 502, 503} [] (g_windows st)
                  (try_block w req initial_locals st)"
    by (simp add: route)
  obtain thrown loc1 st1 where run: "try_block w req initial_locals st = (thrown, loc1, st1)"
    by (cases "try_block w req initial_locals st") auto
  from within have codes: "\<forall>(code, p) \<in> set (o_sent (handler w req st)). code \<in> {200, 400, 502, 503}"
    by (auto simp: handler_reply run run_reply_def answers_within_def)
  from within have "g_windows (o_state (handler w req st)) = g_windows st"
    by (simp add: handler_windows run answers_within_def)
  with same codes show ?thesis by blast
qed


text \<open>
  Witness for C9: the remote client of \<open>verify_request\<close>, with \<open>allowRemote\<close>
  false and a policy in which \<open>prism\<close> does not allow \<open>analyze\<close>, gets the answer
  that a loopback client gets when remote access is allowed, \<open>prism\<close> allows
  \<open>analyze\<close> and \<open>prism\<close> has a call in its window.
\<close>

theorem verify_ignores_gate_and_limits_witness:
  "o_sent (handler (demo_world\<lparr>w_allowRemote := True,
                      w_policyFile := policyFile_with_allowed_intents (\<lambda>name. Some [''analyze''])
                                        (w_policyFile demo_world)\<rparr>)
             (verify_request\<lparr>req_remoteAddress := Some ''127.0.0.1''\<rparr>)
             (new_gateway\<lparr>g_windows := [''prism'' \<mapsto> [59000]]\<rparr>))
     = [(200, JObj [(''status'', JStr ''ok''), (''verdict'', JStr ''unverified''),
                    (''confidence'', JNum (1 / 2)), (''reasoning'', JStr demo_reply),
                    (''agent_used'', JStr ''prism''), (''sources_checked'', JNum 0),
                    (''flags'', JArr []), (''timestamp'', JStr ''2026-01-01T00:01:00.000Z'')])]
   \<and> g_windows (o_state (handler demo_world verify_request new_gateway)) = Map.empty"
proof -
  have post: "req_method verify_request = ''POST''" "req_url verify_request = ''/v1/verify''"
    by (simp_all add: verify_request_def)
  have empty: "g_windows new_gateway = Map.empty"
    by (simp add: new_gateway_def)
  show ?thesis
    using verify_ignores_gate_and_limits [OF post, where w = demo_world and b = True
            and f = "\<lambda>name. Some [''analyze'']" and a = "Some ''127.0.0.1''"
            and st = new_gateway and ws = "[''prism'' \<mapsto> [59000]]"]
          demo_verified empty
    by simp
qed


end
